theory Spec2Isabelle
  imports Complex_Main "HOL-Library.Sublist"
begin

section \<open>JavaScript values and objects\<close>

text \<open>
  The values that travel through the recipe records are the scalars a spreadsheet cell
  or a form input can hold. \<open>Undefined\<close> is what reading a property that an object
  does not have yields. \<open>NaN\<close> is kept apart from the other numbers because it is
  falsy, equal to nothing, and what \<open>undefined + 1\<close> evaluates to.
\<close>

datatype jsval = Undefined | Null | JBool bool | Num int | NaN | Str string

text \<open>A flat object: the property names it has, each with its value.\<close>

type_synonym obj = "string \<rightharpoonup> jsval"

text \<open>\<open>o.f\<close>: reading a property the object lacks gives \<open>undefined\<close>.\<close>

definition get :: "obj \<Rightarrow> string \<Rightarrow> jsval" where
  "get ob f = (case ob f of None \<Rightarrow> Undefined | Some v \<Rightarrow> v)"

text \<open>JavaScript truthiness (\<open>ToBoolean\<close>).\<close>

fun truthy :: "jsval \<Rightarrow> bool" where
  "truthy Undefined = False"
| "truthy Null = False"
| "truthy (JBool b) = b"
| "truthy (Num n) = (n \<noteq> 0)"
| "truthy NaN = False"
| "truthy (Str s) = (s \<noteq> [])"

text \<open>\<open>a || b\<close>: the left operand when it is truthy, the right one otherwise.\<close>

definition js_or :: "jsval \<Rightarrow> jsval \<Rightarrow> jsval" where
  "js_or a b = (if truthy a then a else b)"

text \<open>\<open>a === b\<close>: equal values of the same type; \<open>NaN\<close> equals nothing.\<close>

definition strict_eq :: "jsval \<Rightarrow> jsval \<Rightarrow> bool" where
  "strict_eq a b = (a = b \<and> a \<noteq> NaN)"

text \<open>
  A number of JavaScript is a double. \<open>Num n\<close> stands for the double whose value is
  the whole number \<open>n\<close>: identifiers and like counts are whole numbers, and fractions
  and the infinities are left out. A double has 53 significant bits, so not every
  whole number is one, and the result of an addition is rounded to the nearest
  double, to the one with an even significand when two are equally near.
  \<open>halvings a\<close> is the number of low bits that \<open>a\<close> has beyond 53, and
  \<open>double_round x\<close> is the double nearest to the whole number \<open>x\<close> (which is finite
  for every sum of a double and 1).
\<close>

function halvings :: "nat \<Rightarrow> nat" where
  "halvings a = (if a < 2 ^ 53 then 0 else Suc (halvings (a div 2)))"
  by pat_completeness auto
termination
  by (relation "measure id") auto

declare halvings.simps [simp del]

definition double_round :: "int \<Rightarrow> int" where
  "double_round x =
     (let a = nat \<bar>x\<bar>;
          u = 2 ^ halvings a;
          q = a div u;
          r = a mod u;
          q' = (if u < 2 * r \<or> (2 * r = u \<and> odd q) then q + 1 else q)
      in sgn x * int (q' * u))"

text \<open>
  \<open>v + 1\<close>: string concatenation when \<open>v\<close> is a string, numeric addition after
  \<open>ToNumber\<close> otherwise (\<open>null\<close> and \<open>false\<close> count 0, \<open>true\<close> counts 1,
  \<open>undefined\<close> gives \<open>NaN\<close>). The sum of two numbers is rounded to a double.
\<close>

fun plus_one :: "jsval \<Rightarrow> jsval" where
  "plus_one (Num n) = Num (double_round (n + 1))"
| "plus_one (Str s) = Str (s @ ''1'')"
| "plus_one (JBool b) = Num (if b then 2 else 1)"
| "plus_one Null = Num 1"
| "plus_one Undefined = NaN"
| "plus_one NaN = NaN"

section \<open>The remote store adapter: field translation\<close>

text \<open>
  \<open>normalizeRecipe\<close> builds the record the views use from a row of the sheet;
  \<open>denormalizeRecipe\<close> builds the row that is sent to the sheet from the form data.
\<close>

definition normalizeRecipe :: "obj \<Rightarrow> obj" where
  "normalizeRecipe receita =
     [''id'' \<mapsto> get receita ''id'',
      ''titulo'' \<mapsto> js_or (get receita ''titulo'') (Str ''''),
      ''imagem_url'' \<mapsto> js_or (get receita ''imagem'') (Str ''''),
      ''tempo_preparo'' \<mapsto> js_or (get receita ''tempo'') (Str ''''),
      ''ingredientes'' \<mapsto> js_or (get receita ''ingredientes'') (Str ''''),
      ''instrucoes'' \<mapsto> js_or (get receita ''preparacao'') (Str ''''),
      ''likes'' \<mapsto> js_or (get receita ''likes'') (Num 0),
      ''categoria'' \<mapsto> js_or (get receita ''categoria'') (Str ''Sem categoria''),
      ''categoria_id'' \<mapsto> js_or (get receita ''categoria'') (Str '''')]"

definition denormalizeRecipe :: "obj \<Rightarrow> obj" where
  "denormalizeRecipe data =
     [''titulo'' \<mapsto> get data ''titulo'',
      ''imagem'' \<mapsto> get data ''imagem_url'',
      ''tempo'' \<mapsto> get data ''tempo_preparo'',
      ''ingredientes'' \<mapsto> get data ''ingredientes'',
      ''preparacao'' \<mapsto> get data ''instrucoes'',
      ''categoria'' \<mapsto> get data ''categoria_id'']"

text \<open>
  A row of the sheet with every column filled: the text columns hold strings, the
  like count and the identifier hold numbers.
\<close>

definition is_text :: "jsval \<Rightarrow> bool" where
  "is_text v = (case v of Str s \<Rightarrow> True | _ \<Rightarrow> False)"

definition is_number :: "jsval \<Rightarrow> bool" where
  "is_number v = (case v of Num n \<Rightarrow> True | _ \<Rightarrow> False)"

definition text_columns :: "string list" where
  "text_columns = [''titulo'', ''imagem'', ''tempo'', ''ingredientes'', ''preparacao'', ''categoria'']"

definition storage_row :: "obj \<Rightarrow> bool" where
  "storage_row r =
     (list_all (\<lambda>f. is_text (get r f)) text_columns
      \<and> is_number (get r ''likes'') \<and> is_number (get r ''id''))"

text \<open>A sample row, used to evaluate the definitions.\<close>

definition sample_row :: obj where
  "sample_row =
     [''id'' \<mapsto> Num 2, ''titulo'' \<mapsto> Str ''Caldo Verde'',
      ''imagem'' \<mapsto> Str ''https://img/caldo.jpg'', ''tempo'' \<mapsto> Str ''45 min'',
      ''ingredientes'' \<mapsto> Str ''couve'', ''preparacao'' \<mapsto> Str ''cozer'',
      ''likes'' \<mapsto> Num 5, ''categoria'' \<mapsto> Str ''Sopas'']"

section \<open>The remote store adapter: requests\<close>

text \<open>
  The endpoints of the remote collection. \<open>ReceitaId v\<close> stands for the path
  \<open>/receitas/${v}\<close>, with the value that the template is given; the bodies of
  \<open>POST\<close> and \<open>PUT\<close> are the record sent under the field \<open>receita\<close>.
\<close>

datatype path = Receitas | ReceitaId jsval | Categorias

datatype request = GET path | POST path obj | PUT path obj | DELETE path

text \<open>
  \<open>response.data\<close>: the body of an answer, with the fields the adapter reads
  (\<open>None\<close> when the body lacks the field). \<open>Failure\<close> is a request that the
  HTTP client rejects (network error or error status).
\<close>

record data =
  receita :: "obj option"
  receitas :: "obj list option"
  categorias :: "obj list option"

datatype response = Failure | Response data

datatype error = TransportError | TypeError

text \<open>
  The HTTP client, as the adapter sees it: a request sent in a state of the outside
  world gives a response and the next state of the world.
\<close>

type_synonym 'w transport = "request \<Rightarrow> 'w \<Rightarrow> response \<times> 'w"

text \<open>A transport that also records every exchange, oldest first.\<close>

type_synonym exchange = "request \<times> response"

definition logged :: "'w transport \<Rightarrow> (exchange list \<times> 'w) transport" where
  "logged api rq lw =
     (case api rq (snd lw) of (rs, w') \<Rightarrow> (rs, (fst lw @ [(rq, rs)], w')))"

text \<open>The requests of a record of exchanges, and the requests that write a like count
  to an existing record.\<close>

definition sent :: "exchange list \<times> 'w \<Rightarrow> request list" where
  "sent lw = map fst (fst lw)"

definition carries_likes :: "request \<Rightarrow> bool" where
  "carries_likes rq = (case rq of PUT p body \<Rightarrow> body ''likes'' \<noteq> None | _ \<Rightarrow> False)"

text \<open>
  Every function of the adapter catches a failure, writes it to the console and throws
  it again; the model keeps the thrown error as \<open>Inl\<close>.
\<close>

definition getCategories :: "'w transport \<Rightarrow> 'w \<Rightarrow> (error + obj list) \<times> 'w" where
  "getCategories api w =
     (case api (GET Categorias) w of
        (Failure, w') \<Rightarrow> (Inl TransportError, w')
      | (Response d, w') \<Rightarrow>
          (Inr (case categorias d of None \<Rightarrow> [] | Some cs \<Rightarrow> cs), w'))"

definition getRecipes :: "'w transport \<Rightarrow> 'w \<Rightarrow> (error + obj list) \<times> 'w" where
  "getRecipes api w =
     (case api (GET Receitas) w of
        (Failure, w') \<Rightarrow> (Inl TransportError, w')
      | (Response d, w') \<Rightarrow>
          (Inr (map normalizeRecipe (case receitas d of None \<Rightarrow> [] | Some rs \<Rightarrow> rs)), w'))"

text \<open>\<open>getRecipeById\<close> returns \<open>null\<close> (here \<open>None\<close>) when the body has no record.\<close>

definition getRecipeById :: "'w transport \<Rightarrow> jsval \<Rightarrow> 'w \<Rightarrow> (error + obj option) \<times> 'w" where
  "getRecipeById api ident w =
     (case api (GET (ReceitaId ident)) w of
        (Failure, w') \<Rightarrow> (Inl TransportError, w')
      | (Response d, w') \<Rightarrow>
          (case receita d of
             None \<Rightarrow> (Inr None, w')
           | Some r \<Rightarrow> (Inr (Some (normalizeRecipe r)), w')))"

text \<open>
  \<open>createRecipe\<close> posts the row of the form with \<open>likes: 0\<close> written over it.
  Translating an answer without a record reads a property of \<open>undefined\<close>, which
  throws.
\<close>

definition createRecipe :: "'w transport \<Rightarrow> obj \<Rightarrow> 'w \<Rightarrow> (error + obj) \<times> 'w" where
  "createRecipe api form w =
     (case api (POST Receitas ((denormalizeRecipe form)(''likes'' \<mapsto> Num 0))) w of
        (Failure, w') \<Rightarrow> (Inl TransportError, w')
      | (Response d, w') \<Rightarrow>
          (case receita d of
             None \<Rightarrow> (Inl TypeError, w')
           | Some r \<Rightarrow> (Inr (normalizeRecipe r), w')))"

definition updateRecipe :: "'w transport \<Rightarrow> jsval \<Rightarrow> obj \<Rightarrow> 'w \<Rightarrow> (error + obj) \<times> 'w" where
  "updateRecipe api ident form w =
     (case api (PUT (ReceitaId ident) (denormalizeRecipe form)) w of
        (Failure, w') \<Rightarrow> (Inl TransportError, w')
      | (Response d, w') \<Rightarrow>
          (case receita d of
             None \<Rightarrow> (Inl TypeError, w')
           | Some r \<Rightarrow> (Inr (normalizeRecipe r), w')))"

definition deleteRecipe :: "'w transport \<Rightarrow> jsval \<Rightarrow> 'w \<Rightarrow> (error + bool) \<times> 'w" where
  "deleteRecipe api ident w =
     (case api (DELETE (ReceitaId ident)) w of
        (Failure, w') \<Rightarrow> (Inl TransportError, w')
      | (Response d, w') \<Rightarrow> (Inr True, w'))"

text \<open>
  \<open>likeRecipe\<close> reads the record, adds one to its like count and puts the new count
  alone; without a record it returns \<open>null\<close> and sends nothing more.
\<close>

definition likeRecipe :: "'w transport \<Rightarrow> jsval \<Rightarrow> 'w \<Rightarrow> (error + jsval) \<times> 'w" where
  "likeRecipe api ident w =
     (case api (GET (ReceitaId ident)) w of
        (Failure, w1) \<Rightarrow> (Inl TransportError, w1)
      | (Response d, w1) \<Rightarrow>
          (case receita d of
             None \<Rightarrow> (Inr Null, w1)
           | Some r \<Rightarrow>
               (let newLikes = plus_one (js_or (get r ''likes'') (Num 0)) in
                case api (PUT (ReceitaId ident) [''likes'' \<mapsto> newLikes]) w1 of
                  (Failure, w2) \<Rightarrow> (Inl TransportError, w2)
                | (Response d2, w2) \<Rightarrow> (Inr newLikes, w2))))"

text \<open>
  The same function in the steps in which it runs: the get is sent when the function
  is called; \<open>likeRecipe_fetched\<close> is what it does once the answer to the get is
  there, returning at once or sending the put and waiting with the new count;
  \<open>likeRecipe_updated\<close> is what it returns once the answer to the put is there.
\<close>

definition likeRecipe_fetched ::
  "'w transport \<Rightarrow> jsval \<Rightarrow> response \<Rightarrow> 'w \<Rightarrow> ((error + jsval) + jsval \<times> response) \<times> 'w" where
  "likeRecipe_fetched api ident rs w1 =
     (case rs of
        Failure \<Rightarrow> (Inl (Inl TransportError), w1)
      | Response d \<Rightarrow>
          (case receita d of
             None \<Rightarrow> (Inl (Inr Null), w1)
           | Some r \<Rightarrow>
               (let newLikes = plus_one (js_or (get r ''likes'') (Num 0)) in
                case api (PUT (ReceitaId ident) [''likes'' \<mapsto> newLikes]) w1 of
                  (rs2, w2) \<Rightarrow> (Inr (newLikes, rs2), w2))))"

definition likeRecipe_updated :: "jsval \<Rightarrow> response \<Rightarrow> error + jsval" where
  "likeRecipe_updated newLikes rs2 =
     (case rs2 of Failure \<Rightarrow> Inl TransportError | Response d2 \<Rightarrow> Inr newLikes)"

section \<open>The list view\<close>

text \<open>
  \<open>s.includes(t)\<close>: \<open>t\<close> occurs in \<open>s\<close> as a run of consecutive characters.
\<close>

fun includes_str :: "string \<Rightarrow> string \<Rightarrow> bool" where
  "includes_str [] t = (t = [])"
| "includes_str (c # s) t = (prefix t (c # s) \<or> includes_str s t)"

text \<open>
  \<open>xs.slice(start, end)\<close>: a negative bound counts from the end of the array, and
  both bounds are cut to the array.
\<close>

definition slice :: "'a list \<Rightarrow> int \<Rightarrow> int \<Rightarrow> 'a list" where
  "slice xs start fin =
     (let len = int (length xs);
          k = (if start < 0 then max (len + start) 0 else min start len);
          final = (if fin < 0 then max (len + fin) 0 else min fin len)
      in take (nat (final - k)) (drop (nat k) xs))"

definition recipesPerPage :: int where
  "recipesPerPage = 6"

text \<open>
  The filter of the list view. The built-in \<open>toLowerCase\<close> is a parameter. A title
  that is not a string has no such method, and calling it throws.
\<close>

fun filteredRecipes :: "(string \<Rightarrow> string) \<Rightarrow> obj list \<Rightarrow> string \<Rightarrow> error + obj list" where
  "filteredRecipes toLowerCase [] searchTerm = Inr []"
| "filteredRecipes toLowerCase (recipe # rest) searchTerm =
     (case get recipe ''titulo'' of
        Str titulo \<Rightarrow>
          (case filteredRecipes toLowerCase rest searchTerm of
             Inl e \<Rightarrow> Inl e
           | Inr kept \<Rightarrow>
               Inr (if includes_str (toLowerCase titulo) (toLowerCase searchTerm)
                    then recipe # kept else kept))
      | _ \<Rightarrow> Inl TypeError)"

definition totalPages :: "obj list \<Rightarrow> int" where
  "totalPages filtered = \<lceil>real (length filtered) / real_of_int recipesPerPage\<rceil>"

definition startIndex :: "int \<Rightarrow> int" where
  "startIndex currentPage = (currentPage - 1) * recipesPerPage"

definition paginatedRecipes :: "obj list \<Rightarrow> int \<Rightarrow> obj list" where
  "paginatedRecipes filtered currentPage =
     slice filtered (startIndex currentPage) (startIndex currentPage + recipesPerPage)"

text \<open>The built-in \<open>toLowerCase\<close> on ASCII text, used to evaluate the filter.\<close>

definition ascii_toLowerCase :: "string \<Rightarrow> string" where
  "ascii_toLowerCase s =
     map (\<lambda>c. case map_of (zip ''ABCDEFGHIJKLMNOPQRSTUVWXYZ'' ''abcdefghijklmnopqrstuvwxyz'') c of
                Some l \<Rightarrow> l
              | None \<Rightarrow> c) s"

text \<open>The title of a record of the list, and a record with a given title.\<close>

definition title_of :: "obj \<Rightarrow> string" where
  "title_of r = (case get r ''titulo'' of Str t \<Rightarrow> t | _ \<Rightarrow> [])"

definition titled :: "int \<Rightarrow> string \<Rightarrow> obj" where
  "titled n t = normalizeRecipe [''id'' \<mapsto> Num n, ''titulo'' \<mapsto> Str t]"

section \<open>The detail view\<close>

text \<open>
  The messages that the views write to the console: \<open>Campos obrigatorios em falta\<close>,
  \<open>Erro ao guardar receita\<close>, \<open>Erro ao eliminar receita\<close>, \<open>Erro ao carregar dados\<close>,
  \<open>Erro ao carregar receita\<close> and \<open>Erro ao dar like\<close>.
\<close>

datatype console_msg =
  CamposObrigatoriosEmFalta | ErroGuardar | ErroEliminar | ErroCarregarDados
  | ErroCarregarReceita | ErroLike

text \<open>
  One instance of the detail view. \<open>rid\<close> is the route parameter \<open>id\<close>: the numeral
  of a record identifier, kept as the number that \<open>parseInt(id)\<close> returns. The path
  \<open>/receitas/${id}\<close> is written \<open>ReceitaId (Num n)\<close> for the parameter \<open>n\<close>. The
  parameter is not part of the state of the view: the router sets it, and it can
  change while the instance stays mounted.
\<close>

record detail =
  rid :: int
  recipe :: "obj option"
  loading :: bool
  likes :: jsval
  isLiking :: bool
  liked :: bool

definition detail_init :: "int \<Rightarrow> detail" where
  "detail_init n =
     \<lparr>rid = n, recipe = None, loading = True, likes = Num 0, isLiking = False, liked = False\<rparr>"

text \<open>
  The entry \<open>liked_recipes\<close> of the local storage: \<open>None\<close> while the key is not set.
  \<open>likedRecipes\<close> is \<open>JSON.parse(localStorage.getItem('liked_recipes') || '[]')\<close>.
\<close>

type_synonym storage = "int list option"

definition likedRecipes :: "storage \<Rightarrow> int list" where
  "likedRecipes st = (case st of None \<Rightarrow> [] | Some ids \<Rightarrow> ids)"

text \<open>
  \<open>loadRecipe\<close>, after \<open>getRecipeById\<close> has settled. \<open>ident\<close> is the route parameter
  that the call closed over when it started.
\<close>

definition loadRecipe_done ::
  "error + obj option \<Rightarrow> int \<Rightarrow> storage \<Rightarrow> detail \<Rightarrow> detail \<times> console_msg list" where
  "loadRecipe_done outcome ident st v =
     (case outcome of
        Inl e \<Rightarrow> (v\<lparr>loading := False\<rparr>, [ErroCarregarReceita])
      | Inr None \<Rightarrow> (v\<lparr>loading := False\<rparr>, [])
      | Inr (Some d) \<Rightarrow>
          (v\<lparr>recipe := Some d, likes := get d ''likes'',
             liked := (ident \<in> set (likedRecipes st)), loading := False\<rparr>, []))"

text \<open>
  \<open>handleLike\<close> up to its \<open>await\<close>: the new state and whether \<open>likeRecipe\<close> is
  called.
\<close>

definition handleLike :: "detail \<Rightarrow> detail \<times> bool" where
  "handleLike v =
     (if isLiking v \<or> liked v then (v, False) else (v\<lparr>isLiking := True\<rparr>, True))"

text \<open>
  \<open>handleLike\<close> after \<open>likeRecipe\<close> has settled, again with the route parameter that
  the handler closed over.
\<close>

definition handleLike_done ::
  "error + jsval \<Rightarrow> int \<Rightarrow> storage \<Rightarrow> detail \<Rightarrow> detail \<times> storage \<times> console_msg list" where
  "handleLike_done outcome ident st v =
     (case outcome of
        Inl e \<Rightarrow> (v\<lparr>isLiking := False\<rparr>, st, [ErroLike])
      | Inr newLikes \<Rightarrow>
          (if \<not> strict_eq newLikes Null
           then (v\<lparr>likes := newLikes, liked := True, isLiking := False\<rparr>,
                 Some (likedRecipes st @ [ident]), [])
           else (v\<lparr>isLiking := False\<rparr>, st, [])))"

text \<open>
  A call of a view that has not settled, with the route parameter that its handler
  closed over and the answer that is on its way: \<open>loadRecipe\<close> waits for
  \<open>getRecipeById\<close>; \<open>handleLike\<close> waits for \<open>likeRecipe\<close>, which waits for the
  answer to its get and then, with the new count, for the answer to its put.
\<close>

datatype detail_await =
  AwaitRecipe int "error + obj option"
  | AwaitLikeGet int response
  | AwaitLikePut int jsval response

text \<open>
  A client: the local storage, the view instances that are open on it, the calls
  that have not settled yet (each with the index of its view), the console and the
  outside world. Several views of one client share the local storage, as the tabs of
  a browser do. A handler runs up to its \<open>await\<close> when its event happens, and a
  request reaches the outside world when it is sent; the answer is kept with the
  pending call, and the rest of the handler runs when the call settles.
\<close>

record 'w client =
  liked_recipes :: storage
  tabs :: "detail list"
  awaiting :: "(nat \<times> detail_await) list"
  console :: "console_msg list"
  world :: 'w

definition client_init :: "storage \<Rightarrow> 'w \<Rightarrow> 'w client" where
  "client_init st w =
     \<lparr>liked_recipes = st, tabs = [], awaiting = [], console = [], world = w\<rparr>"

text \<open>
  What can happen on a client: a view is opened on a route parameter, the route
  parameter of a mounted view changes (either way the effect on \<open>[id]\<close> calls
  \<open>loadRecipe\<close>), the like button of a view is clicked, or one of the pending calls
  settles. The button exists once the view is not loading and holds a record.
\<close>

datatype client_event = Open int | Navigate nat int | ClickLike nat | Settle nat

definition remove_nth :: "nat \<Rightarrow> 'a list \<Rightarrow> 'a list" where
  "remove_nth k xs = take k xs @ drop (Suc k) xs"

text \<open>\<open>loadRecipe\<close> up to its \<open>await\<close>, for the view \<open>i\<close> and the route parameter \<open>n\<close>.\<close>

definition loadRecipe_start :: "'w transport \<Rightarrow> nat \<Rightarrow> int \<Rightarrow> 'w client \<Rightarrow> 'w client" where
  "loadRecipe_start api i n c =
     (case getRecipeById api (Num n) (world c) of (outcome, w') \<Rightarrow>
        c\<lparr>tabs := (tabs c)[i := (tabs c ! i)\<lparr>loading := True\<rparr>],
          awaiting := awaiting c @ [(i, AwaitRecipe n outcome)], world := w'\<rparr>)"

text \<open>The rest of \<open>handleLike\<close>, for the view \<open>i\<close>, once \<open>likeRecipe\<close> has returned or thrown.\<close>

definition like_finished ::
  "nat \<Rightarrow> int \<Rightarrow> error + jsval \<Rightarrow> (nat \<times> detail_await) list \<Rightarrow> 'w \<Rightarrow> 'w client \<Rightarrow> 'w client" where
  "like_finished i ident outcome rest w' c =
     (case handleLike_done outcome ident (liked_recipes c) (tabs c ! i) of (v', st', msgs) \<Rightarrow>
        c\<lparr>liked_recipes := st', tabs := (tabs c)[i := v'], awaiting := rest,
          console := console c @ msgs, world := w'\<rparr>)"

definition client_settle :: "'w transport \<Rightarrow> nat \<Rightarrow> 'w client \<Rightarrow> 'w client" where
  "client_settle api k c =
     (if k < length (awaiting c) then
        (case awaiting c ! k of (i, aw) \<Rightarrow>
          (let rest = remove_nth k (awaiting c) in
           case aw of
             AwaitRecipe ident outcome \<Rightarrow>
               (case loadRecipe_done outcome ident (liked_recipes c) (tabs c ! i) of
                  (v', msgs) \<Rightarrow>
                    c\<lparr>tabs := (tabs c)[i := v'], awaiting := rest,
                      console := console c @ msgs\<rparr>)
           | AwaitLikeGet ident rs \<Rightarrow>
               (case likeRecipe_fetched api (Num ident) rs (world c) of
                  (Inl outcome, w') \<Rightarrow> like_finished i ident outcome rest w' c
                | (Inr (newLikes, rs2), w') \<Rightarrow>
                    c\<lparr>awaiting := rest @ [(i, AwaitLikePut ident newLikes rs2)], world := w'\<rparr>)
           | AwaitLikePut ident newLikes rs2 \<Rightarrow>
               like_finished i ident (likeRecipe_updated newLikes rs2) rest (world c) c))
      else c)"

definition client_step :: "'w transport \<Rightarrow> client_event \<Rightarrow> 'w client \<Rightarrow> 'w client" where
  "client_step api ev c =
     (case ev of
        Open n \<Rightarrow>
          loadRecipe_start api (length (tabs c)) n (c\<lparr>tabs := tabs c @ [detail_init n]\<rparr>)
      | Navigate i n \<Rightarrow>
          (if i < length (tabs c) \<and> rid (tabs c ! i) \<noteq> n
           then loadRecipe_start api i n (c\<lparr>tabs := (tabs c)[i := (tabs c ! i)\<lparr>rid := n\<rparr>]\<rparr>)
           else c)
      | ClickLike i \<Rightarrow>
          (if i < length (tabs c) \<and> \<not> loading (tabs c ! i) \<and> recipe (tabs c ! i) \<noteq> None
           then (case handleLike (tabs c ! i) of
                   (v', False) \<Rightarrow> c\<lparr>tabs := (tabs c)[i := v']\<rparr>
                 | (v', True) \<Rightarrow>
                     (case api (GET (ReceitaId (Num (rid (tabs c ! i))))) (world c) of
                        (rs, w') \<Rightarrow>
                          c\<lparr>tabs := (tabs c)[i := v'],
                            awaiting := awaiting c @ [(i, AwaitLikeGet (rid (tabs c ! i)) rs)],
                            world := w'\<rparr>))
           else c)
      | Settle k \<Rightarrow> client_settle api k c)"

fun client_run :: "'w transport \<Rightarrow> client_event list \<Rightarrow> 'w client \<Rightarrow> 'w client" where
  "client_run api [] c = c"
| "client_run api (ev # evs) c = client_run api evs (client_step api ev c)"

section \<open>The admin view\<close>

record admin =
  recipes :: "obj list"
  categories :: "obj list"
  loading :: bool
  showModal :: bool
  showDeleteModal :: bool
  editingRecipe :: "obj option"
  deletingRecipe :: "obj option"
  saving :: bool
  formData :: obj

definition emptyForm :: obj where
  "emptyForm =
     [''titulo'' \<mapsto> Str '''', ''imagem_url'' \<mapsto> Str '''', ''tempo_preparo'' \<mapsto> Str '''',
      ''ingredientes'' \<mapsto> Str '''', ''instrucoes'' \<mapsto> Str '''', ''categoria_id'' \<mapsto> Str '''']"

definition admin_init :: admin where
  "admin_init =
     \<lparr>recipes = [], categories = [], loading = True, showModal = False,
      showDeleteModal = False, editingRecipe = None, deletingRecipe = None,
      saving = False, formData = emptyForm\<rparr>"

definition handleChange :: "string \<Rightarrow> jsval \<Rightarrow> admin \<Rightarrow> admin" where
  "handleChange name val s = s\<lparr>formData := (formData s)(name \<mapsto> val)\<rparr>"

definition openAddModal :: "admin \<Rightarrow> admin" where
  "openAddModal s = s\<lparr>editingRecipe := None, formData := emptyForm, showModal := True\<rparr>"

definition openEditModal :: "obj \<Rightarrow> admin \<Rightarrow> admin" where
  "openEditModal rcp s =
     s\<lparr>editingRecipe := Some rcp,
       formData :=
         [''titulo'' \<mapsto> get rcp ''titulo'',
          ''imagem_url'' \<mapsto> get rcp ''imagem_url'',
          ''tempo_preparo'' \<mapsto> get rcp ''tempo_preparo'',
          ''ingredientes'' \<mapsto> get rcp ''ingredientes'',
          ''instrucoes'' \<mapsto> get rcp ''instrucoes'',
          ''categoria_id'' \<mapsto> js_or (get rcp ''categoria'') (Str '''')],
       showModal := True\<rparr>"

definition openDeleteModal :: "obj \<Rightarrow> admin \<Rightarrow> admin" where
  "openDeleteModal rcp s = s\<lparr>deletingRecipe := Some rcp, showDeleteModal := True\<rparr>"

definition closeModal :: "admin \<Rightarrow> admin" where
  "closeModal s = s\<lparr>showModal := False, editingRecipe := None, formData := emptyForm\<rparr>"

definition closeDeleteModal :: "admin \<Rightarrow> admin" where
  "closeDeleteModal s = s\<lparr>showDeleteModal := False, deletingRecipe := None\<rparr>"

text \<open>
  The call a handler of the admin view is suspended on, with the values that the rest
  of the handler closes over: the identifier of the record being edited or deleted
  and the form data.
\<close>

datatype admin_await =
  AwaitLoad | AwaitUpdate jsval obj | AwaitCreate obj | AwaitDelete jsval | AwaitReload

text \<open>
  \<open>handleSubmit\<close> up to its \<open>await\<close>: the new state, what is written to the
  console, and the call that is started, if any.
\<close>

definition handleSubmit :: "admin \<Rightarrow> admin \<times> console_msg list \<times> admin_await option" where
  "handleSubmit s =
     (if saving s then (s, [], None)
      else if \<not> truthy (get (formData s) ''titulo'')
              \<or> \<not> truthy (get (formData s) ''imagem_url'')
              \<or> \<not> truthy (get (formData s) ''categoria_id'')
      then (s, [CamposObrigatoriosEmFalta], None)
      else (s\<lparr>saving := True\<rparr>, [],
            Some (case editingRecipe s of
                    Some edited \<Rightarrow> AwaitUpdate (get edited ''id'') (formData s)
                  | None \<Rightarrow> AwaitCreate (formData s))))"

text \<open>\<open>handleDelete\<close> up to its \<open>await\<close>.\<close>

definition handleDelete :: "admin \<Rightarrow> admin \<times> console_msg list \<times> admin_await option" where
  "handleDelete s =
     (case deletingRecipe s of
        None \<Rightarrow> (s, [], None)
      | Some deleting \<Rightarrow> (s\<lparr>saving := True\<rparr>, [], Some (AwaitDelete (get deleting ''id''))))"

text \<open>The rest of \<open>handleSubmit\<close> and \<open>handleDelete\<close> once the call has succeeded.\<close>

definition handleSubmit_updated :: "jsval \<Rightarrow> obj \<Rightarrow> admin \<Rightarrow> admin" where
  "handleSubmit_updated editingId updatedRecipe s =
     (closeModal
        (s\<lparr>recipes :=
             map (\<lambda>r. if strict_eq (get r ''id'') editingId then updatedRecipe else r)
               (recipes s)\<rparr>))\<lparr>saving := False\<rparr>"

definition handleSubmit_created :: "obj \<Rightarrow> admin \<Rightarrow> admin" where
  "handleSubmit_created newRecipe s =
     (closeModal (s\<lparr>recipes := recipes s @ [newRecipe]\<rparr>))\<lparr>saving := False\<rparr>"

definition handleDelete_deleted :: "jsval \<Rightarrow> admin \<Rightarrow> admin" where
  "handleDelete_deleted deletingId s =
     (closeDeleteModal
        (s\<lparr>recipes := filter (\<lambda>r. \<not> strict_eq (get r ''id'') deletingId) (recipes s)\<rparr>))
     \<lparr>saving := False\<rparr>"

text \<open>
  \<open>loadData\<close>: both lists are requested at once (\<open>Promise.all\<close>), and the lists are
  stored only when both requests succeed.
\<close>

definition loadData_fetch :: "'w transport \<Rightarrow> 'w \<Rightarrow> (error + obj list \<times> obj list) \<times> 'w" where
  "loadData_fetch api w =
     (case getRecipes api w of (r1, w1) \<Rightarrow>
       (case getCategories api w1 of (r2, w2) \<Rightarrow>
         ((case r1 of
             Inl e \<Rightarrow> Inl e
           | Inr recipesData \<Rightarrow>
               (case r2 of Inl e \<Rightarrow> Inl e
                | Inr categoriesData \<Rightarrow> Inr (recipesData, categoriesData))), w2)))"

definition loadData_done :: "error + obj list \<times> obj list \<Rightarrow> admin \<Rightarrow> admin \<times> console_msg list" where
  "loadData_done outcome s =
     (case outcome of
        Inl e \<Rightarrow> (s\<lparr>loading := False\<rparr>, [ErroCarregarDados])
      | Inr (recipesData, categoriesData) \<Rightarrow>
          (s\<lparr>recipes := recipesData, categories := categoriesData, loading := False\<rparr>, []))"

text \<open>
  The admin view with the calls that have not settled, the console and the outside
  world. The view starts with the \<open>loadData\<close> of its mount effect pending. A call
  of this view exchanges its requests when it settles, and the rest of its handler
  runs then.
\<close>

record 'w admin_sys =
  view :: admin
  pending :: "admin_await list"
  messages :: "console_msg list"
  outside :: 'w

definition admin_sys_init :: "'w \<Rightarrow> 'w admin_sys" where
  "admin_sys_init w = \<lparr>view = admin_init, pending = [AwaitLoad], messages = [], outside = w\<rparr>"

text \<open>
  The events of the admin view. While \<open>loading\<close> holds only the spinner is rendered,
  so no control can be used. The table has one edit and one delete button per
  record; a modal and its controls are rendered only while its flag holds; the
  confirm button of the delete modal is \<open>disabled\<close> while \<open>saving\<close> holds.
\<close>

datatype admin_event =
  ClickAdd | ClickEdit nat | ClickDelete nat | ClickClose | ClickCloseDelete
  | Change string string | SubmitForm | ClickConfirmDelete | Settled nat

definition started ::
  "admin \<times> console_msg list \<times> admin_await option \<Rightarrow> 'w admin_sys \<Rightarrow> 'w admin_sys" where
  "started r sys =
     (case r of (s', msgs, call) \<Rightarrow>
        sys\<lparr>view := s', messages := messages sys @ msgs,
            pending := pending sys @ (case call of None \<Rightarrow> [] | Some aw \<Rightarrow> [aw])\<rparr>)"

text \<open>
  A failed save or delete: the error is logged and \<open>loadData\<close> starts; \<open>saving\<close>
  is reset only after that reload.
\<close>

definition failed :: "console_msg \<Rightarrow> 'w \<Rightarrow> admin_await list \<Rightarrow> 'w admin_sys \<Rightarrow> 'w admin_sys" where
  "failed msg w' rest sys =
     sys\<lparr>view := (view sys)\<lparr>loading := True\<rparr>, messages := messages sys @ [msg],
         pending := rest @ [AwaitReload], outside := w'\<rparr>"

definition admin_settle :: "'w transport \<Rightarrow> nat \<Rightarrow> 'w admin_sys \<Rightarrow> 'w admin_sys" where
  "admin_settle api k sys =
     (if k < length (pending sys) then
        (let rest = remove_nth k (pending sys); s = view sys in
         case pending sys ! k of
           AwaitLoad \<Rightarrow>
             (case loadData_fetch api (outside sys) of (outcome, w') \<Rightarrow>
               (case loadData_done outcome s of (s', msgs) \<Rightarrow>
                  sys\<lparr>view := s', pending := rest, messages := messages sys @ msgs,
                      outside := w'\<rparr>))
         | AwaitReload \<Rightarrow>
             (case loadData_fetch api (outside sys) of (outcome, w') \<Rightarrow>
               (case loadData_done outcome s of (s', msgs) \<Rightarrow>
                  sys\<lparr>view := s'\<lparr>saving := False\<rparr>, pending := rest,
                      messages := messages sys @ msgs, outside := w'\<rparr>))
         | AwaitUpdate editingId form \<Rightarrow>
             (case updateRecipe api editingId form (outside sys) of
                (Inr updatedRecipe, w') \<Rightarrow>
                  sys\<lparr>view := handleSubmit_updated editingId updatedRecipe s,
                      pending := rest, outside := w'\<rparr>
              | (Inl e, w') \<Rightarrow> failed ErroGuardar w' rest sys)
         | AwaitCreate form \<Rightarrow>
             (case createRecipe api form (outside sys) of
                (Inr newRecipe, w') \<Rightarrow>
                  sys\<lparr>view := handleSubmit_created newRecipe s, pending := rest, outside := w'\<rparr>
              | (Inl e, w') \<Rightarrow> failed ErroGuardar w' rest sys)
         | AwaitDelete deletingId \<Rightarrow>
             (case deleteRecipe api deletingId (outside sys) of
                (Inr ok, w') \<Rightarrow>
                  sys\<lparr>view := handleDelete_deleted deletingId s, pending := rest, outside := w'\<rparr>
              | (Inl e, w') \<Rightarrow> failed ErroEliminar w' rest sys))
      else sys)"

definition admin_user :: "admin_event \<Rightarrow> 'w admin_sys \<Rightarrow> 'w admin_sys" where
  "admin_user ev sys =
     (let s = view sys in
      if loading s then sys
      else case ev of
        ClickAdd \<Rightarrow> sys\<lparr>view := openAddModal s\<rparr>
      | ClickEdit i \<Rightarrow>
          (if i < length (recipes s) then sys\<lparr>view := openEditModal (recipes s ! i) s\<rparr>
           else sys)
      | ClickDelete i \<Rightarrow>
          (if i < length (recipes s) then sys\<lparr>view := openDeleteModal (recipes s ! i) s\<rparr>
           else sys)
      | ClickClose \<Rightarrow> (if showModal s then sys\<lparr>view := closeModal s\<rparr> else sys)
      | ClickCloseDelete \<Rightarrow>
          (if showDeleteModal s then sys\<lparr>view := closeDeleteModal s\<rparr> else sys)
      | Change name val \<Rightarrow>
          (if showModal s then sys\<lparr>view := handleChange name (Str val) s\<rparr> else sys)
      | SubmitForm \<Rightarrow> (if showModal s then started (handleSubmit s) sys else sys)
      | ClickConfirmDelete \<Rightarrow>
          (if showDeleteModal s \<and> \<not> saving s then started (handleDelete s) sys else sys)
      | Settled k \<Rightarrow> sys)"

definition admin_step :: "'w transport \<Rightarrow> admin_event \<Rightarrow> 'w admin_sys \<Rightarrow> 'w admin_sys" where
  "admin_step api ev sys =
     (case ev of Settled k \<Rightarrow> admin_settle api k sys | _ \<Rightarrow> admin_user ev sys)"

fun admin_run :: "'w transport \<Rightarrow> admin_event list \<Rightarrow> 'w admin_sys \<Rightarrow> 'w admin_sys" where
  "admin_run api [] sys = sys"
| "admin_run api (ev # evs) sys = admin_run api evs (admin_step api ev sys)"

text \<open>The saves and deletes that have not finished, reload after a failure included.\<close>

definition is_mutation :: "admin_await \<Rightarrow> bool" where
  "is_mutation aw = (aw \<noteq> AwaitLoad)"

definition in_flight :: "'w admin_sys \<Rightarrow> admin_await list" where
  "in_flight sys = filter is_mutation (pending sys)"

text \<open>
  Serialised saves and deletes: at most one is in flight, and only while \<open>saving\<close>
  holds.
\<close>

definition serialized :: "'w admin_sys \<Rightarrow> bool" where
  "serialized sys =
     (length (in_flight sys) \<le> 1 \<and> (in_flight sys \<noteq> [] \<longrightarrow> saving (view sys)))"

section \<open>A sample store\<close>

text \<open>
  A small store that answers the way the adapter expects the sheet to answer: a
  \<open>PUT\<close> overwrites the columns that the body defines, the identifier apart, and
  keeps the others, a
  \<open>POST\<close> appends the row under a new identifier, and a request for a row that
  does not exist fails. It serves to run the adapter and the views on concrete
  inputs.
\<close>

definition no_data :: data where
  "no_data = \<lparr>receita = None, receitas = None, categorias = None\<rparr>"

definition find_row :: "jsval \<Rightarrow> obj list \<Rightarrow> obj option" where
  "find_row v rows = find (\<lambda>r. get r ''id'' = v) rows"

definition overwrite :: "obj \<Rightarrow> obj \<Rightarrow> obj" where
  "overwrite r body =
     (\<lambda>k. case body k of None \<Rightarrow> r k
          | Some v \<Rightarrow> (if v = Undefined \<or> k = ''id'' then r k else Some v))"

fun sheet_api :: "obj list transport" where
  "sheet_api (GET Receitas) rows = (Response (no_data\<lparr>receitas := Some rows\<rparr>), rows)"
| "sheet_api (GET Categorias) rows = (Response (no_data\<lparr>categorias := Some []\<rparr>), rows)"
| "sheet_api (GET (ReceitaId v)) rows =
     (case find_row v rows of
        None \<Rightarrow> (Failure, rows)
      | Some r \<Rightarrow> (Response (no_data\<lparr>receita := Some r\<rparr>), rows))"
| "sheet_api (PUT (ReceitaId v) body) rows =
     (case find_row v rows of
        None \<Rightarrow> (Failure, rows)
      | Some r \<Rightarrow>
          (Response (no_data\<lparr>receita := Some (overwrite r body)\<rparr>),
           map (\<lambda>x. if get x ''id'' = v then overwrite x body else x) rows))"
| "sheet_api (POST Receitas body) rows =
     (Response (no_data\<lparr>receita := Some (body(''id'' \<mapsto> Num (int (length rows) + 2)))\<rparr>),
      rows @ [body(''id'' \<mapsto> Num (int (length rows) + 2))])"
| "sheet_api (DELETE (ReceitaId v)) rows =
     (Response no_data, filter (\<lambda>r. get r ''id'' \<noteq> v) rows)"
| "sheet_api rq rows = (Failure, rows)"

text \<open>The like count that the sample store holds for an identifier.\<close>

definition stored_likes :: "jsval \<Rightarrow> obj list \<Rightarrow> jsval option" where
  "stored_likes v rows = map_option (\<lambda>r. get r ''likes'') (find_row v rows)"

text \<open>A transport that is down.\<close>

definition offline :: "'w transport" where
  "offline rq w = (Failure, w)"

section \<open>Sample data\<close>

text \<open>The sample row with an empty category cell.\<close>

definition uncategorised_row :: obj where
  "uncategorised_row = sample_row(''categoria'' \<mapsto> Str '''')"

text \<open>
  The text columns of a row with the field of the view record that each is
  translated to (the category apart), and the fields of the view record apart from
  the identifier.
\<close>

definition renamed :: "(string \<times> string) list" where
  "renamed =
     [(''titulo'', ''titulo''), (''imagem'', ''imagem_url''), (''tempo'', ''tempo_preparo''),
      (''ingredientes'', ''ingredientes''), (''preparacao'', ''instrucoes'')]"

definition ui_fields :: "string list" where
  "ui_fields =
     [''titulo'', ''imagem_url'', ''tempo_preparo'', ''ingredientes'', ''instrucoes'',
      ''likes'', ''categoria'', ''categoria_id'']"

text \<open>A transport that answers every request with a body that holds no record.\<close>

definition blank :: "'w transport" where
  "blank rq w = (Response no_data, w)"

text \<open>The data of a filled form, and the row that the sample store makes of it.\<close>

definition sample_form :: obj where
  "sample_form =
     [''titulo'' \<mapsto> Str ''Arroz Doce'', ''imagem_url'' \<mapsto> Str ''https://img/arroz.jpg'',
      ''tempo_preparo'' \<mapsto> Str ''60 min'', ''ingredientes'' \<mapsto> Str ''arroz'',
      ''instrucoes'' \<mapsto> Str ''cozer'', ''categoria_id'' \<mapsto> Str ''Sobremesas'']"

definition created_row :: obj where
  "created_row =
     [''titulo'' \<mapsto> Str ''Arroz Doce'', ''imagem'' \<mapsto> Str ''https://img/arroz.jpg'',
      ''tempo'' \<mapsto> Str ''60 min'', ''ingredientes'' \<mapsto> Str ''arroz'',
      ''preparacao'' \<mapsto> Str ''cozer'', ''categoria'' \<mapsto> Str ''Sobremesas'',
      ''likes'' \<mapsto> Num 0, ''id'' \<mapsto> Num 3]"

text \<open>Seven records of the list view.\<close>

definition seven :: "obj list" where
  "seven =
     [titled 1 ''Caldo Verde'', titled 2 ''Arroz Doce'', titled 3 ''Bacalhau'',
      titled 4 ''Acorda'', titled 5 ''Cozido'', titled 6 ''Francesinha'',
      titled 7 ''Arroz de Pato'']"

text \<open>
  Runs of the admin view on the sample store: the view after its first load, the
  view with the form of a new record open, and the view while that record is being
  created.
\<close>

definition loaded_admin :: "obj list admin_sys" where
  "loaded_admin = admin_run sheet_api [Settled 0] (admin_sys_init [sample_row, created_row])"

definition adding_admin :: "obj list admin_sys" where
  "adding_admin = admin_run sheet_api [ClickAdd] loaded_admin"

definition busy_admin :: "obj list admin_sys" where
  "busy_admin =
     admin_run sheet_api
       [Change ''titulo'' ''Arroz Doce'', Change ''imagem_url'' ''https://img/arroz.jpg'',
        Change ''categoria_id'' ''Sobremesas'', SubmitForm] adding_admin"

text \<open>The admin view while the first record of the table is being deleted.\<close>

definition deleting_admin :: "obj list admin_sys" where
  "deleting_admin = admin_run sheet_api [ClickDelete 0, ClickConfirmDelete] loaded_admin"

text \<open>
  The puts of a record of exchanges, and the acknowledged ones: those that were
  answered and not rejected. A like of a view succeeds exactly when its put is
  acknowledged.
\<close>

definition put_sent :: "exchange \<Rightarrow> bool" where
  "put_sent x = (case fst x of PUT p body \<Rightarrow> True | _ \<Rightarrow> False)"

definition accepted_put :: "exchange \<Rightarrow> bool" where
  "accepted_put x = (put_sent x \<and> snd x \<noteq> Failure)"

definition puts :: "exchange list \<Rightarrow> nat" where
  "puts lg = length (filter put_sent lg)"

definition increments :: "exchange list \<Rightarrow> nat" where
  "increments lg = length (filter accepted_put lg)"

text \<open>
  A client on which one view instance is opened, on the route parameter \<open>n\<close>, and
  stays there: the events that follow neither open a view nor change the route
  parameter.
\<close>

definition stays :: "client_event \<Rightarrow> bool" where
  "stays ev = (case ev of Open n \<Rightarrow> False | Navigate i n \<Rightarrow> False | _ \<Rightarrow> True)"

definition one_view ::
  "'w transport \<Rightarrow> storage \<Rightarrow> int \<Rightarrow> 'w \<Rightarrow> client_event list \<Rightarrow> (exchange list \<times> 'w) client" where
  "one_view api st n w evs = client_run (logged api) (Open n # evs) (client_init st ([], w))"

text \<open>
  What holds of such a client all along, for its view \<open>v\<close> and the number \<open>k\<close> of
  acknowledged puts: at most one call is pending, the load of the view or one like;
  a like is pending only while \<open>isLiking\<close> holds and \<open>liked\<close> does not; no put is
  acknowledged before the put of a like is answered, and at most one ever is, after
  which \<open>liked\<close> holds.
\<close>

fun pending_ok :: "detail \<Rightarrow> nat \<Rightarrow> (nat \<times> detail_await) list \<Rightarrow> bool" where
  "pending_ok v k [] = (k \<le> 1 \<and> (k = 1 \<longrightarrow> liked v))"
| "pending_ok v k [(i, AwaitRecipe n outcome)] = (i = 0 \<and> detail.loading v \<and> k = 0)"
| "pending_ok v k [(i, AwaitLikeGet n rs)] = (i = 0 \<and> isLiking v \<and> \<not> liked v \<and> k = 0)"
| "pending_ok v k [(i, AwaitLikePut n newLikes rs)] =
     (i = 0 \<and> isLiking v \<and> \<not> liked v \<and> newLikes \<noteq> Null
      \<and> k = (if rs = Failure then 0 else 1))"
| "pending_ok v k (x # y # ys) = False"

definition single_flight :: "(exchange list \<times> 'w) client \<Rightarrow> bool" where
  "single_flight c =
     (length (tabs c) = 1
      \<and> pending_ok (tabs c ! 0) (increments (fst (world c))) (awaiting c))"

text \<open>
  What holds in addition when the route parameter of the view is in the persisted
  set from the start: nothing but the load of the view is ever pending, no put is
  sent, and \<open>liked\<close> holds as soon as the view holds a record.
\<close>

fun load_only :: "int \<Rightarrow> (nat \<times> detail_await) list \<Rightarrow> bool" where
  "load_only n [] = True"
| "load_only n [(i, AwaitRecipe m outcome)] = (i = 0 \<and> m = n)"
| "load_only n aws = False"

definition already_liked :: "(exchange list \<times> 'w) client \<Rightarrow> bool" where
  "already_liked c =
     (length (tabs c) = 1
      \<and> puts (fst (world c)) = 0
      \<and> load_only (rid (tabs c ! 0)) (awaiting c)
      \<and> rid (tabs c ! 0) \<in> set (likedRecipes (liked_recipes c))
      \<and> (recipe (tabs c ! 0) \<noteq> None \<longrightarrow> liked (tabs c ! 0)))"

text \<open>
  Two views opened on the record 2 of the sample store by one client; both have
  loaded, and the like of the first has succeeded.
\<close>

definition two_tabs :: "obj list client" where
  "two_tabs =
     client_run sheet_api
       [Open 2, Settle 0, Open 2, Settle 0, ClickLike 0, Settle 0, Settle 0]
       (client_init None [sample_row])"

section \<open>Values and objects: basic facts\<close>

lemma get_upd [simp]: "get (m(k \<mapsto> v)) f = (if f = k then v else get m f)"
  by (simp add: get_def)

lemma get_empty [simp]: "get Map.empty f = Undefined"
  by (simp add: get_def)

lemma js_or_text: "is_text v \<Longrightarrow> js_or v (Str '''') = v"
  by (cases v) (auto simp: is_text_def js_or_def)

lemma js_or_number: "is_number v \<Longrightarrow> js_or v (Num 0) = v"
  by (cases v) (auto simp: is_number_def js_or_def)

lemma js_or_falsy: "\<not> truthy v \<Longrightarrow> js_or v d = d"
  by (simp add: js_or_def)

lemma js_or_defined: "d \<noteq> Undefined \<Longrightarrow> d \<noteq> Null \<Longrightarrow> js_or v d \<noteq> Undefined \<and> js_or v d \<noteq> Null"
  by (cases v) (auto simp: js_or_def)

lemma text_present: "is_text (get r f) \<Longrightarrow> r f = Some (get r f)"
  by (cases "r f") (auto simp: get_def is_text_def)

subsection \<open>Adding one to a number\<close>

lemma halvings_small: "a < 2 ^ 53 \<Longrightarrow> halvings a = 0"
  by (simp add: halvings.simps)

lemma halvings_big: "\<not> a < 2 ^ 53 \<Longrightarrow> halvings a = Suc (halvings (a div 2))"
  by (subst halvings.simps) simp

text \<open>A whole number of fewer than 54 bits is a double.\<close>

lemma double_round_exact: "\<bar>x\<bar> < 2 ^ 53 \<Longrightarrow> double_round x = x"
proof -
  assume "\<bar>x\<bar> < 2 ^ 53"
  then have "nat \<bar>x\<bar> < 2 ^ 53"
    by (simp add: nat_less_iff)
  then have "halvings (nat \<bar>x\<bar>) = 0" by (rule halvings_small)
  then show ?thesis
    by (simp add: double_round_def Let_def mult_sgn_abs)
qed

lemma plus_one_safe: "\<bar>n\<bar> < 2 ^ 53 - 1 \<Longrightarrow> plus_one (Num n) = Num (n + 1)"
  by (simp add: double_round_exact)

text \<open>
  Beyond that the sum is rounded: \<open>2 ^ 53 + 1\<close> is no double, and adding one to
  \<open>2 ^ 53\<close> gives \<open>2 ^ 53\<close> again.
\<close>

lemma halvings_beyond: "halvings 9007199254740993 = 1"
  by (simp add: halvings_big halvings_small)

lemma plus_one_beyond_safe: "plus_one (Num 9007199254740992) = Num 9007199254740992"
  by (simp add: double_round_def halvings_beyond Let_def)

lemma plus_one_not_Null: "plus_one v \<noteq> Null"
  by (cases v) auto

section \<open>The field translation\<close>

lemma storage_row_sample: "storage_row sample_row"
  by (simp add: storage_row_def sample_row_def text_columns_def is_text_def is_number_def)

lemma storage_row_uncat: "storage_row uncategorised_row"
  by (simp add: uncategorised_row_def storage_row_def sample_row_def text_columns_def is_text_def is_number_def)

text \<open>
  Claim C1 as stated fails on a row with five likes and an empty category cell: the
  row that comes back has no like count, and in the view record the category
  selector is empty while the category is the placeholder.
\<close>

theorem translation_roundtrip_counterexample:
  "storage_row uncategorised_row
   \<and> get (denormalizeRecipe (normalizeRecipe uncategorised_row)) ''likes'' \<noteq> get uncategorised_row ''likes''
   \<and> get (normalizeRecipe uncategorised_row) ''categoria_id'' \<noteq> get (normalizeRecipe uncategorised_row) ''categoria''"
  by (simp add: storage_row_uncat)
     (simp add: denormalizeRecipe_def normalizeRecipe_def uncategorised_row_def sample_row_def js_or_def)

lemma dom_denormalizeRecipe: "dom (denormalizeRecipe d) = set text_columns"
  by (auto simp: denormalizeRecipe_def text_columns_def)

lemma text_columns_restored:
  assumes "storage_row r" "f \<in> set text_columns"
  shows "denormalizeRecipe (normalizeRecipe r) f = r f"
proof -
  from assms have t: "is_text (get r f)"
    by (auto simp: storage_row_def list_all_iff)
  from assms have "denormalizeRecipe (normalizeRecipe r) f = Some (get r f)"
    by (auto simp: storage_row_def text_columns_def denormalizeRecipe_def normalizeRecipe_def js_or_text)
  with t show ?thesis by (simp add: text_present)
qed

text \<open>
  Claim C1, amended. For every row of the sheet whose text columns hold strings,
  translating it to the view record and back gives a row with the same \<open>titulo\<close>,
  \<open>imagem\<close>, \<open>tempo\<close>, \<open>ingredientes\<close>, \<open>preparacao\<close> and \<open>categoria\<close> and with
  no other field: neither \<open>likes\<close> nor \<open>id\<close> is carried back. The view record in
  between keeps the like count and the identifier of the row, its \<open>categoria_id\<close>
  is the category of the row, and its \<open>categoria\<close> is the same value unless the
  category of the row is the empty string, where it is \<open>Sem categoria\<close>.
\<close>

theorem translation_roundtrip:
  "storage_row r \<Longrightarrow>
     (\<forall>f \<in> set text_columns. denormalizeRecipe (normalizeRecipe r) f = r f)
     \<and> dom (denormalizeRecipe (normalizeRecipe r)) = set text_columns
     \<and> get (normalizeRecipe r) ''likes'' = get r ''likes''
     \<and> get (normalizeRecipe r) ''id'' = get r ''id''
     \<and> get (normalizeRecipe r) ''categoria_id'' = get r ''categoria''
     \<and> get (normalizeRecipe r) ''categoria'' =
         (if get r ''categoria'' = Str '''' then Str ''Sem categoria'' else get r ''categoria'')"
proof (intro conjI)
  assume r: "storage_row r"
  show "\<forall>f \<in> set text_columns. denormalizeRecipe (normalizeRecipe r) f = r f"
    using r by (simp add: text_columns_restored)
  show "dom (denormalizeRecipe (normalizeRecipe r)) = set text_columns"
    by (rule dom_denormalizeRecipe)
  from r have l: "is_number (get r ''likes'')" and c: "is_text (get r ''categoria'')"
    by (simp_all add: storage_row_def text_columns_def)
  show "get (normalizeRecipe r) ''likes'' = get r ''likes''"
    using l by (simp add: normalizeRecipe_def js_or_number)
  show "get (normalizeRecipe r) ''id'' = get r ''id''"
    by (simp add: normalizeRecipe_def)
  show "get (normalizeRecipe r) ''categoria_id'' = get r ''categoria''"
    using c by (simp add: normalizeRecipe_def js_or_text)
  show "get (normalizeRecipe r) ''categoria'' =
         (if get r ''categoria'' = Str '''' then Str ''Sem categoria'' else get r ''categoria'')"
    using c by (cases "get r ''categoria''") (auto simp: normalizeRecipe_def js_or_def is_text_def)
qed

theorem translation_roundtrip_witness:
  "storage_row sample_row
   \<and> denormalizeRecipe (normalizeRecipe sample_row) ''titulo'' = Some (Str ''Caldo Verde'')
   \<and> denormalizeRecipe (normalizeRecipe sample_row) ''tempo'' = Some (Str ''45 min'')
   \<and> denormalizeRecipe (normalizeRecipe sample_row) ''categoria'' = Some (Str ''Sopas'')
   \<and> denormalizeRecipe (normalizeRecipe sample_row) ''likes'' = None
   \<and> get (normalizeRecipe sample_row) ''likes'' = Num 5
   \<and> get (normalizeRecipe sample_row) ''categoria_id'' = Str ''Sopas''
   \<and> get (normalizeRecipe sample_row) ''categoria'' = Str ''Sopas''"
proof -
  from translation_roundtrip [OF storage_row_sample]
  have t: "\<forall>f \<in> set text_columns.
        denormalizeRecipe (normalizeRecipe sample_row) f = sample_row f"
    and d: "dom (denormalizeRecipe (normalizeRecipe sample_row)) = set text_columns"
    and g: "get (normalizeRecipe sample_row) ''likes'' = get sample_row ''likes''"
      "get (normalizeRecipe sample_row) ''categoria_id'' = get sample_row ''categoria''"
      "get (normalizeRecipe sample_row) ''categoria'' =
         (if get sample_row ''categoria'' = Str [] then Str ''Sem categoria''
          else get sample_row ''categoria'')"
    by blast+
  from d have "''likes'' \<notin> dom (denormalizeRecipe (normalizeRecipe sample_row))"
    by (simp add: text_columns_def)
  then have l: "denormalizeRecipe (normalizeRecipe sample_row) ''likes'' = None"
    by blast
  from t g l storage_row_sample show ?thesis
    by (simp add: text_columns_def sample_row_def)
qed

text \<open>
  Claim C2 as stated fails on the empty record: the missing category becomes the
  placeholder \<open>Sem categoria\<close>, not the empty string, and the identifier of the view
  record is \<open>undefined\<close>.
\<close>

theorem normalizeRecipe_defaults_counterexample:
  "get Map.empty ''categoria'' = Undefined
   \<and> get (normalizeRecipe Map.empty) ''categoria'' \<noteq> Str ''''
   \<and> get (normalizeRecipe Map.empty) ''id'' = Undefined"
  by (simp add: normalizeRecipe_def js_or_def)

text \<open>
  Claim C2, amended. For every record, a missing, undefined or otherwise falsy
  \<open>titulo\<close>, \<open>imagem\<close>, \<open>tempo\<close>, \<open>ingredientes\<close> or \<open>preparacao\<close> gives the empty
  string in the corresponding field of the view record, and such a \<open>likes\<close> gives 0;
  such a \<open>categoria\<close> gives the empty string in \<open>categoria_id\<close> and the placeholder
  \<open>Sem categoria\<close> in \<open>categoria\<close>. No field of the view record other than \<open>id\<close>
  is ever \<open>undefined\<close> or \<open>null\<close>; \<open>id\<close> is copied as it is.
\<close>

theorem normalizeRecipe_defaults:
  "(\<forall>(f, g) \<in> set renamed. \<not> truthy (get r f) \<longrightarrow> get (normalizeRecipe r) g = Str '''')
   \<and> (\<not> truthy (get r ''likes'') \<longrightarrow> get (normalizeRecipe r) ''likes'' = Num 0)
   \<and> (\<not> truthy (get r ''categoria'') \<longrightarrow>
        get (normalizeRecipe r) ''categoria_id'' = Str ''''
        \<and> get (normalizeRecipe r) ''categoria'' = Str ''Sem categoria'')
   \<and> (\<forall>g \<in> set ui_fields.
        get (normalizeRecipe r) g \<noteq> Undefined \<and> get (normalizeRecipe r) g \<noteq> Null)
   \<and> get (normalizeRecipe r) ''id'' = get r ''id''"
  by (simp add: renamed_def ui_fields_def normalizeRecipe_def js_or_falsy js_or_defined)

theorem normalizeRecipe_defaults_witness:
  "\<not> truthy (get [''id'' \<mapsto> Num 2, ''titulo'' \<mapsto> Str ''Caldo Verde''] ''imagem'')
   \<and> \<not> truthy (get [''id'' \<mapsto> Num 2, ''titulo'' \<mapsto> Str ''Caldo Verde''] ''likes'')
   \<and> \<not> truthy (get [''id'' \<mapsto> Num 2, ''titulo'' \<mapsto> Str ''Caldo Verde''] ''categoria'')
   \<and> get (normalizeRecipe [''id'' \<mapsto> Num 2, ''titulo'' \<mapsto> Str ''Caldo Verde'']) ''imagem_url'' = Str ''''
   \<and> get (normalizeRecipe [''id'' \<mapsto> Num 2, ''titulo'' \<mapsto> Str ''Caldo Verde'']) ''likes'' = Num 0
   \<and> get (normalizeRecipe [''id'' \<mapsto> Num 2, ''titulo'' \<mapsto> Str ''Caldo Verde'']) ''categoria'' = Str ''Sem categoria''
   \<and> get (normalizeRecipe [''id'' \<mapsto> Num 2, ''titulo'' \<mapsto> Str ''Caldo Verde'']) ''id'' = Num 2"
  using normalizeRecipe_defaults [of "[''id'' \<mapsto> Num 2, ''titulo'' \<mapsto> Str ''Caldo Verde'']"]
  by (simp add: renamed_def)

section \<open>The requests of the adapter\<close>

lemma denormalizeRecipe_ignores_likes:
  "denormalizeRecipe (form(''likes'' \<mapsto> v)) = denormalizeRecipe form"
  by (simp add: denormalizeRecipe_def)

lemma denormalizeRecipe_no_likes: "denormalizeRecipe form ''likes'' = None"
  by (simp add: denormalizeRecipe_def)

lemma denormalizeRecipe_no_id: "denormalizeRecipe form ''id'' = None"
  by (simp add: denormalizeRecipe_def)

lemma updateRecipe_requests:
  "sent (snd (updateRecipe (logged api) ident form (lg, w))) =
     map fst lg @ [PUT (ReceitaId ident) (denormalizeRecipe form)]"
  by (simp add: sent_def updateRecipe_def logged_def
      split: prod.splits response.splits option.splits)

lemma createRecipe_requests:
  "sent (snd (createRecipe (logged api) form (lg, w))) =
     map fst lg @ [POST Receitas ((denormalizeRecipe form)(''likes'' \<mapsto> Num 0))]"
  by (simp add: sent_def createRecipe_def logged_def
      split: prod.splits response.splits option.splits)

lemma deleteRecipe_requests:
  "sent (snd (deleteRecipe (logged api) ident (lg, w))) = map fst lg @ [DELETE (ReceitaId ident)]"
  by (simp add: sent_def deleteRecipe_def logged_def
      split: prod.splits response.splits option.splits)

lemma getRecipes_requests:
  "sent (snd (getRecipes (logged api) (lg, w))) = map fst lg @ [GET Receitas]"
  by (simp add: sent_def getRecipes_def logged_def
      split: prod.splits response.splits option.splits)

lemma getCategories_requests:
  "sent (snd (getCategories (logged api) (lg, w))) = map fst lg @ [GET Categorias]"
  by (simp add: sent_def getCategories_def logged_def
      split: prod.splits response.splits option.splits)

lemma getRecipeById_requests:
  "sent (snd (getRecipeById (logged api) ident (lg, w))) = map fst lg @ [GET (ReceitaId ident)]"
  by (simp add: sent_def getRecipeById_def logged_def
      split: prod.splits response.splits option.splits)

lemma updateRecipe_world:
  "snd (updateRecipe api ident form w) =
     snd (api (PUT (ReceitaId ident) (denormalizeRecipe form)) w)"
  by (simp add: updateRecipe_def split: prod.splits response.splits option.splits)

subsection \<open>The sample store\<close>

lemma find_row_sample: "find_row (Num 2) [sample_row] = Some sample_row"
  by (simp add: find_row_def sample_row_def)

lemma get_sample_likes: "get sample_row ''likes'' = Num 5"
  by (simp add: sample_row_def)

lemma created_row_eq:
  "((denormalizeRecipe (sample_form(''likes'' \<mapsto> Num 41)))(''likes'' \<mapsto> Num 0))(''id'' \<mapsto> Num 3)
     = created_row"
  by (rule ext) (simp add: denormalizeRecipe_def sample_form_def created_row_def)

lemma get_overwrite: "body f = None \<Longrightarrow> get (overwrite r body) f = get r f"
  by (simp add: overwrite_def get_def)

lemma get_overwrite_id: "get (overwrite r body) ''id'' = get r ''id''"
  by (simp add: overwrite_def get_def split: option.splits)

lemma find_row_put:
  "find_row k (map (\<lambda>x. if get x ''id'' = v then overwrite x body else x) rows)
     = map_option (\<lambda>x. if get x ''id'' = v then overwrite x body else x) (find_row k rows)"
  by (induction rows) (auto simp: find_row_def get_overwrite_id)

lemma sheet_put_keeps_likes:
  assumes "body ''likes'' = None"
  shows "stored_likes k (snd (sheet_api (PUT (ReceitaId v) body) rows)) = stored_likes k rows"
proof (cases "find_row v rows")
  case None
  then show ?thesis by simp
next
  case (Some r)
  then show ?thesis
    using assms
    by (cases "find_row k rows") (auto simp: stored_likes_def find_row_put get_overwrite)
qed

subsection \<open>The like increment\<close>

lemma likeRecipe_phases:
  "likeRecipe api ident w =
     (case api (GET (ReceitaId ident)) w of (rs, w1) \<Rightarrow>
        (case likeRecipe_fetched api ident rs w1 of
           (Inl outcome, w') \<Rightarrow> (outcome, w')
         | (Inr (newLikes, rs2), w2) \<Rightarrow> (likeRecipe_updated newLikes rs2, w2)))"
  by (simp add: likeRecipe_def likeRecipe_fetched_def likeRecipe_updated_def Let_def
      split: prod.splits response.splits option.splits)

text \<open>
  Claim C3. For every identifier, \<open>likeRecipe\<close> first gets the record; when the
  answer holds a record with like count \<open>n\<close> it then puts a body whose only field
  is \<open>likes\<close>, with the value \<open>n + 1\<close>, and returns \<open>n + 1\<close>; when the answer holds
  no record it returns \<open>null\<close>, and the get is the only request. The count is a
  whole number of magnitude below \<open>2 ^ 53 - 1\<close>, the range in which the numbers of
  JavaScript add without rounding.
\<close>

theorem likeRecipe_read_modify_write:
  "(api (GET (ReceitaId ident)) w = (Response d, w1) \<and> receita d = Some r
      \<and> get r ''likes'' = Num n \<and> \<bar>n\<bar> < 2 ^ 53 - 1
      \<and> api (PUT (ReceitaId ident) [''likes'' \<mapsto> Num (n + 1)]) w1 = (Response d2, w2)
    \<longrightarrow> likeRecipe (logged api) ident ([], w) =
          (Inr (Num (n + 1)),
           ([(GET (ReceitaId ident), Response d),
             (PUT (ReceitaId ident) [''likes'' \<mapsto> Num (n + 1)], Response d2)], w2)))
   \<and> (api (GET (ReceitaId ident)) w = (Response d, w1) \<and> receita d = None
    \<longrightarrow> likeRecipe (logged api) ident ([], w) =
          (Inr Null, ([(GET (ReceitaId ident), Response d)], w1)))"
proof (intro conjI impI)
  assume h: "api (GET (ReceitaId ident)) w = (Response d, w1) \<and> receita d = Some r
      \<and> get r ''likes'' = Num n \<and> \<bar>n\<bar> < 2 ^ 53 - 1
      \<and> api (PUT (ReceitaId ident) [''likes'' \<mapsto> Num (n + 1)]) w1 = (Response d2, w2)"
  then have "\<bar>n\<bar> < 2 ^ 53 - 1" by blast
  then have "plus_one (Num n) = Num (n + 1)" by (rule plus_one_safe)
  then have "plus_one (js_or (Num n) (Num 0)) = Num (n + 1)"
    by (cases "n = 0") (simp_all add: js_or_def del: plus_one.simps)
  with h show "likeRecipe (logged api) ident ([], w) =
          (Inr (Num (n + 1)),
           ([(GET (ReceitaId ident), Response d),
             (PUT (ReceitaId ident) [''likes'' \<mapsto> Num (n + 1)], Response d2)], w2))"
    by (simp add: likeRecipe_def logged_def Let_def)
next
  assume "api (GET (ReceitaId ident)) w = (Response d, w1) \<and> receita d = None"
  then show "likeRecipe (logged api) ident ([], w) =
          (Inr Null, ([(GET (ReceitaId ident), Response d)], w1))"
    by (simp add: likeRecipe_def logged_def)
qed

theorem likeRecipe_read_modify_write_witness:
  "likeRecipe (logged sheet_api) (Num 2) ([], [sample_row]) =
     (Inr (Num 6),
      ([(GET (ReceitaId (Num 2)), Response (no_data\<lparr>receita := Some sample_row\<rparr>)),
        (PUT (ReceitaId (Num 2)) [''likes'' \<mapsto> Num 6],
         Response (no_data\<lparr>receita := Some (overwrite sample_row [''likes'' \<mapsto> Num 6])\<rparr>))],
       [overwrite sample_row [''likes'' \<mapsto> Num 6]]))
   \<and> likeRecipe (logged blank) (Num 2) ([], ()) =
       (Inr Null, ([(GET (ReceitaId (Num 2)), Response no_data)], ()))"
proof -
  have g: "sheet_api (GET (ReceitaId (Num 2))) [sample_row] =
            (Response (no_data\<lparr>receita := Some sample_row\<rparr>), [sample_row])"
    by (simp add: find_row_sample)
  have p: "sheet_api (PUT (ReceitaId (Num 2)) [''likes'' \<mapsto> Num (5 + 1)]) [sample_row] =
            (Response (no_data\<lparr>receita := Some (overwrite sample_row [''likes'' \<mapsto> Num 6])\<rparr>),
             [overwrite sample_row [''likes'' \<mapsto> Num 6]])"
    by (simp add: find_row_sample) (simp add: sample_row_def)
  have b: "blank (GET (ReceitaId (Num 2))) () = (Response no_data, ())"
    by (simp add: blank_def)
  have r: "receita (no_data\<lparr>receita := Some sample_row\<rparr>) = Some sample_row"
    and n: "receita no_data = None"
    by (simp_all add: no_data_def)
  have s: "\<bar>5::int\<bar> < 2 ^ 53 - 1" by simp
  show ?thesis
    using likeRecipe_read_modify_write [of sheet_api "Num 2" "[sample_row]"
        "no_data\<lparr>receita := Some sample_row\<rparr>" "[sample_row]" sample_row 5
        "no_data\<lparr>receita := Some (overwrite sample_row [''likes'' \<mapsto> Num 6])\<rparr>"
        "[overwrite sample_row [''likes'' \<mapsto> Num 6]]"]
      likeRecipe_read_modify_write [of blank "Num 2" "()" no_data "()"]
      g p b r n s get_sample_likes
    by simp
qed

subsection \<open>Creating a record\<close>

text \<open>The fields of the view record that \<open>normalizeRecipe\<close> makes of a row of the sheet.\<close>

lemma normalizeRecipe_storage_row:
  assumes "storage_row r"
  shows "normalizeRecipe r =
     [''id'' \<mapsto> get r ''id'', ''titulo'' \<mapsto> get r ''titulo'',
      ''imagem_url'' \<mapsto> get r ''imagem'', ''tempo_preparo'' \<mapsto> get r ''tempo'',
      ''ingredientes'' \<mapsto> get r ''ingredientes'', ''instrucoes'' \<mapsto> get r ''preparacao'',
      ''likes'' \<mapsto> get r ''likes'',
      ''categoria'' \<mapsto> (if get r ''categoria'' = Str [] then Str ''Sem categoria''
                         else get r ''categoria''),
      ''categoria_id'' \<mapsto> get r ''categoria'']"
proof -
  from assms have t: "is_text (get r ''titulo'')" "is_text (get r ''imagem'')"
    "is_text (get r ''tempo'')" "is_text (get r ''ingredientes'')"
    "is_text (get r ''preparacao'')" "is_text (get r ''categoria'')"
    and l: "is_number (get r ''likes'')"
    by (simp_all add: storage_row_def text_columns_def)
  from t(6) have c: "js_or (get r ''categoria'') (Str ''Sem categoria'') =
      (if get r ''categoria'' = Str [] then Str ''Sem categoria'' else get r ''categoria'')"
    by (cases "get r ''categoria''") (auto simp: js_or_def is_text_def)
  show ?thesis
    unfolding normalizeRecipe_def using t l c by (simp add: js_or_text js_or_number)
qed

text \<open>
  Claim C4. For every form, \<open>createRecipe\<close> sends one request, a post of the row of
  the form with the like count 0; the row is the same whatever like count the form
  holds; and when the answer holds a row of the sheet, the result is that row in the
  shape of the view: \<open>imagem\<close> as \<open>imagem_url\<close>, \<open>tempo\<close> as \<open>tempo_preparo\<close>,
  \<open>preparacao\<close> as \<open>instrucoes\<close>, the category both as \<open>categoria\<close> (the
  placeholder when it is empty) and as \<open>categoria_id\<close>, and the identifier, the
  title, the ingredients and the like count under their own names.
\<close>

theorem createRecipe_zero_likes:
  "sent (snd (createRecipe (logged api) form ([], w))) =
     [POST Receitas ((denormalizeRecipe form)(''likes'' \<mapsto> Num 0))]
   \<and> get ((denormalizeRecipe form)(''likes'' \<mapsto> Num 0)) ''likes'' = Num 0
   \<and> (denormalizeRecipe (form(''likes'' \<mapsto> v)))(''likes'' \<mapsto> Num 0) =
       (denormalizeRecipe form)(''likes'' \<mapsto> Num 0)
   \<and> (api (POST Receitas ((denormalizeRecipe form)(''likes'' \<mapsto> Num 0))) w = (Response d, w')
        \<and> receita d = Some r \<and> storage_row r
      \<longrightarrow> createRecipe api form w =
            (Inr [''id'' \<mapsto> get r ''id'', ''titulo'' \<mapsto> get r ''titulo'',
                  ''imagem_url'' \<mapsto> get r ''imagem'', ''tempo_preparo'' \<mapsto> get r ''tempo'',
                  ''ingredientes'' \<mapsto> get r ''ingredientes'',
                  ''instrucoes'' \<mapsto> get r ''preparacao'',
                  ''likes'' \<mapsto> get r ''likes'',
                  ''categoria'' \<mapsto> (if get r ''categoria'' = Str [] then Str ''Sem categoria''
                                     else get r ''categoria''),
                  ''categoria_id'' \<mapsto> get r ''categoria''], w'))"
proof (intro conjI impI)
  show "sent (snd (createRecipe (logged api) form ([], w))) =
     [POST Receitas ((denormalizeRecipe form)(''likes'' \<mapsto> Num 0))]"
    by (simp add: createRecipe_requests)
  show "get ((denormalizeRecipe form)(''likes'' \<mapsto> Num 0)) ''likes'' = Num 0"
    by simp
  show "(denormalizeRecipe (form(''likes'' \<mapsto> v)))(''likes'' \<mapsto> Num 0) =
       (denormalizeRecipe form)(''likes'' \<mapsto> Num 0)"
    by (simp add: denormalizeRecipe_ignores_likes)
next
  assume h: "api (POST Receitas ((denormalizeRecipe form)(''likes'' \<mapsto> Num 0))) w = (Response d, w')
        \<and> receita d = Some r \<and> storage_row r"
  then have "createRecipe api form w = (Inr (normalizeRecipe r), w')"
    by (simp add: createRecipe_def)
  with h show "createRecipe api form w =
            (Inr [''id'' \<mapsto> get r ''id'', ''titulo'' \<mapsto> get r ''titulo'',
                  ''imagem_url'' \<mapsto> get r ''imagem'', ''tempo_preparo'' \<mapsto> get r ''tempo'',
                  ''ingredientes'' \<mapsto> get r ''ingredientes'',
                  ''instrucoes'' \<mapsto> get r ''preparacao'',
                  ''likes'' \<mapsto> get r ''likes'',
                  ''categoria'' \<mapsto> (if get r ''categoria'' = Str [] then Str ''Sem categoria''
                                     else get r ''categoria''),
                  ''categoria_id'' \<mapsto> get r ''categoria''], w')"
    by (simp only: normalizeRecipe_storage_row)
qed

lemma storage_row_created: "storage_row created_row"
  by (simp add: storage_row_def created_row_def text_columns_def is_text_def is_number_def)

theorem createRecipe_zero_likes_witness:
  "storage_row created_row
   \<and> createRecipe sheet_api (sample_form(''likes'' \<mapsto> Num 41)) [sample_row] =
     (Inr [''id'' \<mapsto> Num 3, ''titulo'' \<mapsto> Str ''Arroz Doce'',
           ''imagem_url'' \<mapsto> Str ''https://img/arroz.jpg'', ''tempo_preparo'' \<mapsto> Str ''60 min'',
           ''ingredientes'' \<mapsto> Str ''arroz'', ''instrucoes'' \<mapsto> Str ''cozer'',
           ''likes'' \<mapsto> Num 0, ''categoria'' \<mapsto> Str ''Sobremesas'',
           ''categoria_id'' \<mapsto> Str ''Sobremesas''],
      [sample_row, created_row])"
proof -
  have p: "sheet_api (POST Receitas
             ((denormalizeRecipe (sample_form(''likes'' \<mapsto> Num 41)))(''likes'' \<mapsto> Num 0)))
             [sample_row]
          = (Response (no_data\<lparr>receita := Some created_row\<rparr>), [sample_row, created_row])"
    by (simp add: created_row_eq)
  have r: "receita (no_data\<lparr>receita := Some created_row\<rparr>) = Some created_row"
    by simp
  have f: "get created_row ''id'' = Num 3" "get created_row ''titulo'' = Str ''Arroz Doce''"
    "get created_row ''imagem'' = Str ''https://img/arroz.jpg''"
    "get created_row ''tempo'' = Str ''60 min''" "get created_row ''ingredientes'' = Str ''arroz''"
    "get created_row ''preparacao'' = Str ''cozer''" "get created_row ''likes'' = Num 0"
    "get created_row ''categoria'' = Str ''Sobremesas''"
    by (simp_all add: created_row_def)
  from createRecipe_zero_likes [of sheet_api "sample_form(''likes'' \<mapsto> Num 41)"
        "[sample_row]" "Num 41" "no_data\<lparr>receita := Some created_row\<rparr>"
        "[sample_row, created_row]" created_row]
      p r storage_row_created
  have "createRecipe sheet_api (sample_form(''likes'' \<mapsto> Num 41)) [sample_row] =
     (Inr [''id'' \<mapsto> get created_row ''id'', ''titulo'' \<mapsto> get created_row ''titulo'',
           ''imagem_url'' \<mapsto> get created_row ''imagem'',
           ''tempo_preparo'' \<mapsto> get created_row ''tempo'',
           ''ingredientes'' \<mapsto> get created_row ''ingredientes'',
           ''instrucoes'' \<mapsto> get created_row ''preparacao'',
           ''likes'' \<mapsto> get created_row ''likes'',
           ''categoria'' \<mapsto> (if get created_row ''categoria'' = Str []
                              then Str ''Sem categoria'' else get created_row ''categoria''),
           ''categoria_id'' \<mapsto> get created_row ''categoria''],
      [sample_row, created_row])"
    by blast
  then show ?thesis
    by (simp add: f storage_row_created)
qed

subsection \<open>Updating a record\<close>

text \<open>
  Claim C10. For every form and identifier, the row that \<open>updateRecipe\<close> sends has
  the six text columns and neither a \<open>likes\<close> nor an \<open>id\<close> field, and it is the body
  of the only request, a put on the record. Hence, on a store whose answer to a put
  without a \<open>likes\<close> field leaves the like counts as they are, whatever is observed
  of the like counts is the same after \<open>updateRecipe\<close>. Of the functions of the
  adapter, none but \<open>likeRecipe\<close> sends a put with a \<open>likes\<close> field.
\<close>

theorem updateRecipe_keeps_likes:
  "denormalizeRecipe form ''likes'' = None \<and> denormalizeRecipe form ''id'' = None
   \<and> dom (denormalizeRecipe form) = set text_columns
   \<and> sent (snd (updateRecipe (logged api) ident form ([], w))) =
       [PUT (ReceitaId ident) (denormalizeRecipe form)]
   \<and> ((\<forall>v body w0. body ''likes'' = None \<longrightarrow>
          observe (snd (api (PUT (ReceitaId v) body) w0)) = observe w0)
       \<longrightarrow> observe (snd (updateRecipe api ident form w)) = observe w)
   \<and> \<not> list_ex carries_likes (sent (snd (updateRecipe (logged api) ident form ([], w))))
   \<and> \<not> list_ex carries_likes (sent (snd (createRecipe (logged api) form ([], w))))
   \<and> \<not> list_ex carries_likes (sent (snd (deleteRecipe (logged api) ident ([], w))))
   \<and> \<not> list_ex carries_likes (sent (snd (getRecipes (logged api) ([], w))))
   \<and> \<not> list_ex carries_likes (sent (snd (getRecipeById (logged api) ident ([], w))))
   \<and> \<not> list_ex carries_likes (sent (snd (getCategories (logged api) ([], w))))"
proof -
  have payload: "denormalizeRecipe form ''likes'' = None \<and> denormalizeRecipe form ''id'' = None
      \<and> dom (denormalizeRecipe form) = set text_columns"
    by (simp add: denormalizeRecipe_no_likes denormalizeRecipe_no_id dom_denormalizeRecipe)
  have kept: "(\<forall>v body w0. body ''likes'' = None \<longrightarrow>
          observe (snd (api (PUT (ReceitaId v) body) w0)) = observe w0)
       \<longrightarrow> observe (snd (updateRecipe api ident form w)) = observe w"
    by (simp add: updateRecipe_world denormalizeRecipe_no_likes)
  have reqs: "sent (snd (updateRecipe (logged api) ident form ([], w))) =
       [PUT (ReceitaId ident) (denormalizeRecipe form)]"
    by (simp add: updateRecipe_requests)
  have others:
    "\<not> list_ex carries_likes (sent (snd (updateRecipe (logged api) ident form ([], w))))
     \<and> \<not> list_ex carries_likes (sent (snd (createRecipe (logged api) form ([], w))))
     \<and> \<not> list_ex carries_likes (sent (snd (deleteRecipe (logged api) ident ([], w))))
     \<and> \<not> list_ex carries_likes (sent (snd (getRecipes (logged api) ([], w))))
     \<and> \<not> list_ex carries_likes (sent (snd (getRecipeById (logged api) ident ([], w))))
     \<and> \<not> list_ex carries_likes (sent (snd (getCategories (logged api) ([], w))))"
    by (simp add: denormalizeRecipe_no_likes updateRecipe_requests createRecipe_requests
        deleteRecipe_requests getRecipes_requests getRecipeById_requests getCategories_requests
        carries_likes_def)
  from payload kept reqs others show ?thesis by blast
qed

theorem updateRecipe_keeps_likes_witness:
  "stored_likes (Num 2) (snd (updateRecipe sheet_api (Num 2) sample_form [sample_row]))
     = stored_likes (Num 2) [sample_row]
   \<and> stored_likes (Num 2) [sample_row] = Some (Num 5)
   \<and> sent (snd (updateRecipe (logged sheet_api) (Num 2) sample_form ([], [sample_row]))) =
       [PUT (ReceitaId (Num 2)) (denormalizeRecipe sample_form)]"
proof -
  have h: "\<forall>v body w0. body ''likes'' = None \<longrightarrow>
      stored_likes (Num 2) (snd (sheet_api (PUT (ReceitaId v) body) w0)) = stored_likes (Num 2) w0"
    by (intro allI impI) (rule sheet_put_keeps_likes)
  have s: "stored_likes (Num 2) [sample_row] = Some (Num 5)"
    by (simp add: stored_likes_def find_row_def sample_row_def)
  show ?thesis
    using updateRecipe_keeps_likes [of sample_form sheet_api "Num 2" "[sample_row]"
        "stored_likes (Num 2)"] h s
    by simp
qed

section \<open>The list view: filter and pages\<close>

lemma includes_str_sublist: "includes_str s t \<longleftrightarrow> sublist t s"
  by (induction s) (auto simp: sublist_Cons_right)

lemma filteredRecipes_filter:
  "list_all (\<lambda>r. is_text (get r ''titulo'')) loaded \<Longrightarrow>
   filteredRecipes toLowerCase loaded searchTerm =
     Inr (filter (\<lambda>r. sublist (toLowerCase searchTerm) (toLowerCase (title_of r))) loaded)"
proof (induction loaded)
  case Nil
  then show ?case by simp
next
  case (Cons r rs)
  then obtain t where "get r ''titulo'' = Str t"
    by (cases "get r ''titulo''") (auto simp: is_text_def)
  with Cons show ?case
    by (simp add: includes_str_sublist title_of_def)
qed

lemma filteredRecipes_throws:
  "\<not> list_all (\<lambda>r. is_text (get r ''titulo'')) loaded \<Longrightarrow>
   filteredRecipes toLowerCase loaded searchTerm = Inl TypeError"
  by (induction loaded) (auto simp: is_text_def split: jsval.splits sum.splits)

lemma slice_page:
  "0 \<le> a \<Longrightarrow> 0 \<le> n \<Longrightarrow> slice xs a (a + n) = take (nat n) (drop (nat a) xs)"
  by (auto simp: slice_def Let_def min_def max_def)

lemma paginatedRecipes_take_drop:
  "1 \<le> p \<Longrightarrow> paginatedRecipes filtered p = take 6 (drop (nat ((p - 1) * 6)) filtered)"
  using slice_page [of "(p - 1) * 6" 6 filtered]
  by (simp add: paginatedRecipes_def startIndex_def recipesPerPage_def)

lemma paginatedRecipes_nth:
  assumes "1 \<le> p" "i < length (paginatedRecipes filtered p)"
  shows "paginatedRecipes filtered p ! i = filtered ! (nat ((p - 1) * 6) + i)"
proof -
  from assms have "i < 6 \<and> i < length filtered - nat ((p - 1) * 6)"
    by (simp add: paginatedRecipes_take_drop)
  then have i: "i < 6" "nat ((p - 1) * 6) \<le> length filtered"
    by linarith+
  from assms(1) have "paginatedRecipes filtered p ! i = drop (nat ((p - 1) * 6)) filtered ! i"
    using i(1) by (simp add: paginatedRecipes_take_drop)
  also have "\<dots> = filtered ! (nat ((p - 1) * 6) + i)"
    using i(2) by (rule nth_drop)
  finally show ?thesis .
qed

lemma totalPages_div: "totalPages filtered = (int (length filtered) + 5) div 6"
proof -
  have "real (length filtered) / real_of_int 6 = of_int (int (length filtered)) / of_int 6"
    by simp
  then have "totalPages filtered = - (- int (length filtered) div 6)"
    unfolding totalPages_def recipesPerPage_def by (simp only: ceiling_divide_eq_div)
  then show ?thesis by presburger
qed

lemma totalPages_bounds:
  "0 \<le> totalPages filtered \<and> 6 * (totalPages filtered - 1) < int (length filtered)
   \<and> int (length filtered) \<le> 6 * totalPages filtered"
  unfolding totalPages_div by presburger

lemma totalPages_Nil: "totalPages [] = 0"
  by (simp add: totalPages_div)

lemma paginatedRecipes_Nil: "paginatedRecipes [] p = []"
  by (simp add: paginatedRecipes_def slice_def Let_def)

text \<open>
  Claim C5. For every loaded collection whose titles are strings, every search
  text and every page \<open>p\<close> from 1 on: the filter keeps, in order, the records whose
  lower-cased title contains the lower-cased search text as a run of consecutive
  characters; the visible records are those at the positions \<open>(p - 1) * 6\<close> to
  \<open>(p - 1) * 6 + 5\<close> of the filtered list; the number of pages is the least whole
  number that is at least a sixth of the length of the filtered list, so it is
  never negative; and when no title matches, the filtered list and the visible list
  are empty and the number of pages is 0.
\<close>

theorem list_view_filter_and_pages:
  "list_all (\<lambda>r. is_text (get r ''titulo'')) loaded \<and> 1 \<le> p \<longrightarrow>
     filteredRecipes toLowerCase loaded searchTerm =
       Inr (filter (\<lambda>r. sublist (toLowerCase searchTerm) (toLowerCase (title_of r))) loaded)
     \<and> paginatedRecipes filtered p = take 6 (drop (nat ((p - 1) * 6)) filtered)
     \<and> (\<forall>i < length (paginatedRecipes filtered p).
           paginatedRecipes filtered p ! i = filtered ! (nat ((p - 1) * 6) + i))
     \<and> totalPages filtered = (int (length filtered) + 5) div 6
     \<and> 0 \<le> totalPages filtered
     \<and> 6 * (totalPages filtered - 1) < int (length filtered)
     \<and> int (length filtered) \<le> 6 * totalPages filtered
     \<and> ((\<forall>r \<in> set loaded. \<not> sublist (toLowerCase searchTerm) (toLowerCase (title_of r)))
        \<longrightarrow> filteredRecipes toLowerCase loaded searchTerm = Inr []
            \<and> paginatedRecipes [] p = [] \<and> totalPages [] = 0)"
proof (intro impI conjI allI)
  assume h: "list_all (\<lambda>r. is_text (get r ''titulo'')) loaded \<and> 1 \<le> p"
  then show "filteredRecipes toLowerCase loaded searchTerm =
       Inr (filter (\<lambda>r. sublist (toLowerCase searchTerm) (toLowerCase (title_of r))) loaded)"
    by (simp add: filteredRecipes_filter)
  from h show "paginatedRecipes filtered p = take 6 (drop (nat ((p - 1) * 6)) filtered)"
    by (simp add: paginatedRecipes_take_drop)
  show "totalPages filtered = (int (length filtered) + 5) div 6"
    by (rule totalPages_div)
  show "0 \<le> totalPages filtered" "6 * (totalPages filtered - 1) < int (length filtered)"
    "int (length filtered) \<le> 6 * totalPages filtered"
    using totalPages_bounds [of filtered] by simp_all
  show "paginatedRecipes [] p = []" by (rule paginatedRecipes_Nil)
  show "totalPages [] = 0" by (rule totalPages_Nil)
next
  fix i
  assume "list_all (\<lambda>r. is_text (get r ''titulo'')) loaded \<and> 1 \<le> p"
    and "i < length (paginatedRecipes filtered p)"
  then show "paginatedRecipes filtered p ! i = filtered ! (nat ((p - 1) * 6) + i)"
    by (simp add: paginatedRecipes_nth)
next
  assume "list_all (\<lambda>r. is_text (get r ''titulo'')) loaded \<and> 1 \<le> p"
    and "\<forall>r \<in> set loaded. \<not> sublist (toLowerCase searchTerm) (toLowerCase (title_of r))"
  then show "filteredRecipes toLowerCase loaded searchTerm = Inr []"
    by (simp add: filteredRecipes_filter filter_empty_conv)
qed

lemma title_of_titled: "title_of (titled n t) = t"
  by (simp add: title_of_def titled_def normalizeRecipe_def js_or_def)

lemma titled_is_text: "is_text (get (titled n t) ''titulo'')"
  by (simp add: titled_def normalizeRecipe_def js_or_def is_text_def)

lemma lower_arroz: "ascii_toLowerCase ''ARROZ'' = ''arroz''"
  by (simp add: ascii_toLowerCase_def)

lemma lower_titles:
  "ascii_toLowerCase ''Caldo Verde'' = ''caldo verde''"
  "ascii_toLowerCase ''Arroz Doce'' = ''arroz doce''"
  "ascii_toLowerCase ''Bacalhau'' = ''bacalhau''"
  "ascii_toLowerCase ''Acorda'' = ''acorda''"
  "ascii_toLowerCase ''Cozido'' = ''cozido''"
  "ascii_toLowerCase ''Francesinha'' = ''francesinha''"
  "ascii_toLowerCase ''Arroz de Pato'' = ''arroz de pato''"
  by (simp_all add: ascii_toLowerCase_def)

theorem list_view_filter_and_pages_witness:
  "list_all (\<lambda>r. is_text (get r ''titulo'')) seven
   \<and> filteredRecipes ascii_toLowerCase seven ''ARROZ'' =
       Inr [titled 2 ''Arroz Doce'', titled 7 ''Arroz de Pato'']
   \<and> paginatedRecipes seven 2 = [titled 7 ''Arroz de Pato'']
   \<and> totalPages seven = 2"
proof -
  have t: "list_all (\<lambda>r. is_text (get r ''titulo'')) seven"
    by (simp add: seven_def titled_is_text)
  have p: "(1::int) \<le> 2" by simp
  from t p list_view_filter_and_pages [of seven 2 ascii_toLowerCase "''ARROZ''" seven]
  have "filteredRecipes ascii_toLowerCase seven ''ARROZ'' =
       Inr (filter (\<lambda>r. sublist (ascii_toLowerCase ''ARROZ'') (ascii_toLowerCase (title_of r))) seven)"
    and "paginatedRecipes seven 2 = take 6 (drop (nat ((2 - 1) * 6)) seven)"
    and "totalPages seven = (int (length seven) + 5) div 6"
    by blast+
  then show ?thesis
    using t by (simp add: seven_def title_of_titled lower_arroz lower_titles sublist_code)
qed

section \<open>The admin view: saves and deletes\<close>

lemma filter_remove_nth_skip:
  assumes "k < length xs" "\<not> P (xs ! k)"
  shows "filter P (remove_nth k xs) = filter P xs"
proof -
  from assms(1) have "xs = take k xs @ xs ! k # drop (Suc k) xs"
    by (simp add: id_take_nth_drop)
  then have "filter P xs = filter P (take k xs) @ filter P (xs ! k # drop (Suc k) xs)"
    by (metis filter_append)
  with assms(2) show ?thesis by (simp add: remove_nth_def)
qed

lemma filter_remove_nth_single:
  assumes "k < length xs" "P (xs ! k)" "length (filter P xs) \<le> 1"
  shows "filter P (remove_nth k xs) = []"
proof -
  from assms(1) have "xs = take k xs @ xs ! k # drop (Suc k) xs"
    by (simp add: id_take_nth_drop)
  then have "filter P xs = filter P (take k xs) @ filter P (xs ! k # drop (Suc k) xs)"
    by (metis filter_append)
  with assms(2) have "length (filter P xs) =
      length (filter P (take k xs)) + 1 + length (filter P (drop (Suc k) xs))"
    by simp
  with assms(3) have "filter P (take k xs) = [] \<and> filter P (drop (Suc k) xs) = []"
    by simp
  then show ?thesis by (simp add: remove_nth_def)
qed

lemma saving_loadData_done [simp]: "saving (fst (loadData_done outcome s)) = saving s"
  by (simp add: loadData_done_def split: sum.splits prod.splits)

lemma saving_loadData_doneD: "loadData_done outcome s = (s', msgs) \<Longrightarrow> saving s' = saving s"
  using saving_loadData_done [of outcome s] by simp

lemma serialized_init: "serialized (admin_sys_init w)"
  by (simp add: serialized_def admin_sys_init_def in_flight_def is_mutation_def)

lemma serialized_user:
  assumes "serialized sys"
  shows "serialized (admin_user ev sys)"
proof (cases "loading (view sys)")
  case True
  then show ?thesis using assms by (simp add: admin_user_def)
next
  case False
  show ?thesis
  proof (cases ev)
    case SubmitForm
    then show ?thesis
      using assms False
      by (auto simp: admin_user_def started_def handleSubmit_def serialized_def in_flight_def
          is_mutation_def Let_def split: option.splits)
  next
    case ClickConfirmDelete
    then show ?thesis
      using assms False
      by (auto simp: admin_user_def started_def handleDelete_def serialized_def in_flight_def
          is_mutation_def Let_def split: option.splits)
  qed (use assms False in \<open>auto simp: admin_user_def serialized_def in_flight_def Let_def
        openAddModal_def openEditModal_def openDeleteModal_def closeModal_def
        closeDeleteModal_def handleChange_def\<close>)
qed

lemma serialized_settle:
  assumes "serialized sys"
  shows "serialized (admin_settle api k sys)"
proof (cases "k < length (pending sys)")
  case False
  then show ?thesis using assms by (simp add: admin_settle_def)
next
  case k: True
  show ?thesis
  proof (cases "pending sys ! k = AwaitLoad")
    case True
    with k have "filter is_mutation (remove_nth k (pending sys)) = in_flight sys"
      unfolding in_flight_def by (intro filter_remove_nth_skip) (simp_all add: is_mutation_def)
    with True k assms show ?thesis
      by (auto simp: admin_settle_def serialized_def in_flight_def Let_def split: prod.splits
          dest: saving_loadData_doneD)
  next
    case False
    then have m: "is_mutation (pending sys ! k)" by (simp add: is_mutation_def)
    from assms have "length (filter is_mutation (pending sys)) \<le> 1"
      by (simp add: serialized_def in_flight_def)
    with k m have rest: "filter is_mutation (remove_nth k (pending sys)) = []"
      by (rule filter_remove_nth_single)
    from k m assms have sv: "saving (view sys)"
      by (auto simp: serialized_def in_flight_def filter_empty_conv dest: nth_mem)
    show ?thesis
      using False k rest sv
      by (cases "pending sys ! k")
        (auto simp: admin_settle_def serialized_def in_flight_def Let_def failed_def
          is_mutation_def split: prod.splits sum.splits)
  qed
qed

lemma serialized_step: "serialized sys \<Longrightarrow> serialized (admin_step api ev sys)"
  by (cases ev) (simp_all add: admin_step_def serialized_user serialized_settle)

lemma serialized_run: "serialized sys \<Longrightarrow> serialized (admin_run api evs sys)"
  by (induction evs arbitrary: sys) (simp_all add: serialized_step)

subsection \<open>Runs on the sample store\<close>

lemma loaded_admin_eval:
  "view loaded_admin =
     admin_init\<lparr>recipes := [normalizeRecipe sample_row, normalizeRecipe created_row],
       categories := [], loading := False\<rparr>"
  "pending loaded_admin = []" "outside loaded_admin = [sample_row, created_row]"
  "messages loaded_admin = []"
  by (simp_all add: loaded_admin_def admin_step_def admin_settle_def admin_sys_init_def
      remove_nth_def loadData_fetch_def getRecipes_def getCategories_def loadData_done_def
      no_data_def admin_init_def)

lemma adding_admin_eval:
  "view adding_admin = openAddModal (view loaded_admin)"
  "pending adding_admin = []" "outside adding_admin = [sample_row, created_row]"
  "messages adding_admin = []"
  by (simp_all add: adding_admin_def admin_step_def admin_user_def loaded_admin_eval
      admin_init_def)

lemma busy_admin_eval:
  "saving (view busy_admin)" "showModal (view busy_admin)" "\<not> loading (view busy_admin)"
  "length (pending busy_admin) = 1"
  by (simp_all add: busy_admin_def admin_step_def admin_user_def adding_admin_eval
      loaded_admin_eval admin_init_def openAddModal_def handleChange_def handleSubmit_def
      started_def emptyForm_def Let_def)

subsection \<open>The guard of submit and delete\<close>

lemma handleSubmit_saving: "saving s \<Longrightarrow> handleSubmit s = (s, [], None)"
  by (simp add: handleSubmit_def)

lemma started_nothing: "started (s, [], None) sys = sys\<lparr>view := s\<rparr>"
  by (simp add: started_def)

lemma submit_while_saving: "saving (view sys) \<Longrightarrow> admin_step api SubmitForm sys = sys"
  by (simp add: admin_step_def admin_user_def handleSubmit_saving started_nothing Let_def)

lemma confirm_while_saving: "saving (view sys) \<Longrightarrow> admin_step api ClickConfirmDelete sys = sys"
  by (simp add: admin_step_def admin_user_def Let_def)

text \<open>
  \<open>handleDelete\<close> itself does not read the flag: given a record to delete it starts
  the call whatever \<open>saving\<close> is. What keeps it from running during a save is the
  confirm button alone.
\<close>

lemma handleDelete_ignores_saving:
  "deletingRecipe s = Some x \<Longrightarrow>
   handleDelete s = (s\<lparr>saving := True\<rparr>, [], Some (AwaitDelete (get x ''id'')))"
  by (simp add: handleDelete_def)

text \<open>
  Claim C7. While \<open>saving\<close> holds, submitting the form and confirming a delete leave
  the whole state of the view as it is: no call is started, nothing reaches the
  outside world and nothing is written. \<open>handleSubmit\<close> checks the flag itself;
  \<open>handleDelete\<close> does not, and is kept from running by the confirm button, which
  is disabled while the flag holds. In every run of the view from its mount, at
  most one save or delete is in flight, and only while the flag holds.
\<close>

theorem saving_serializes_submit_and_delete:
  "(saving (view sys) \<longrightarrow>
      admin_step api SubmitForm sys = sys \<and> admin_step api ClickConfirmDelete sys = sys
      \<and> handleSubmit (view sys) = (view sys, [], None))
   \<and> serialized (admin_run api evs (admin_sys_init w))"
  by (simp add: submit_while_saving confirm_while_saving handleSubmit_saving
      serialized_run serialized_init)

theorem saving_serializes_submit_and_delete_witness:
  "saving (view busy_admin)
   \<and> admin_step sheet_api SubmitForm busy_admin = busy_admin
   \<and> admin_step sheet_api ClickConfirmDelete busy_admin = busy_admin
   \<and> length (in_flight busy_admin) \<le> 1"
proof -
  have run: "busy_admin =
      admin_run sheet_api
        [Settled 0, ClickAdd, Change ''titulo'' ''Arroz Doce'',
         Change ''imagem_url'' ''https://img/arroz.jpg'',
         Change ''categoria_id'' ''Sobremesas'', SubmitForm]
        (admin_sys_init [sample_row, created_row])"
    by (simp add: busy_admin_def adding_admin_def loaded_admin_def)
  from saving_serializes_submit_and_delete [of busy_admin sheet_api
      "[Settled 0, ClickAdd, Change ''titulo'' ''Arroz Doce'',
        Change ''imagem_url'' ''https://img/arroz.jpg'',
        Change ''categoria_id'' ''Sobremesas'', SubmitForm]" "[sample_row, created_row]"]
  have "saving (view busy_admin) \<longrightarrow>
      admin_step sheet_api SubmitForm busy_admin = busy_admin
      \<and> admin_step sheet_api ClickConfirmDelete busy_admin = busy_admin"
    and "serialized busy_admin"
    unfolding run [symmetric] by blast+
  with busy_admin_eval(1) show ?thesis by (simp add: serialized_def)
qed

subsection \<open>The required fields\<close>

text \<open>
  Claim C9. Submitting the form while its title, its image address or its category
  is empty starts no call: the state of the view, its collection included, the
  pending calls and the outside world stay as they are; the rejection is only written
  to the console.
\<close>

theorem submit_rejects_missing_fields:
  "\<not> truthy (get (formData (view sys)) ''titulo'')
   \<or> \<not> truthy (get (formData (view sys)) ''imagem_url'')
   \<or> \<not> truthy (get (formData (view sys)) ''categoria_id'')
   \<longrightarrow> view (admin_step api SubmitForm sys) = view sys
       \<and> recipes (view (admin_step api SubmitForm sys)) = recipes (view sys)
       \<and> pending (admin_step api SubmitForm sys) = pending sys
       \<and> outside (admin_step api SubmitForm sys) = outside sys
       \<and> snd (snd (handleSubmit (view sys))) = None
       \<and> (\<not> loading (view sys) \<and> showModal (view sys) \<and> \<not> saving (view sys)
           \<longrightarrow> messages (admin_step api SubmitForm sys) =
                 messages sys @ [CamposObrigatoriosEmFalta])"
  by (auto simp: admin_step_def admin_user_def handleSubmit_def started_def Let_def)

theorem submit_rejects_missing_fields_witness:
  "\<not> truthy (get (formData (view adding_admin)) ''titulo'')
   \<and> view (admin_step sheet_api SubmitForm adding_admin) = view adding_admin
   \<and> pending (admin_step sheet_api SubmitForm adding_admin) = []
   \<and> outside (admin_step sheet_api SubmitForm adding_admin) = [sample_row, created_row]
   \<and> messages (admin_step sheet_api SubmitForm adding_admin) = [CamposObrigatoriosEmFalta]"
proof -
  have e: "\<not> truthy (get (formData (view adding_admin)) ''titulo'')"
    by (simp add: adding_admin_eval openAddModal_def emptyForm_def)
  have f: "\<not> loading (view adding_admin) \<and> showModal (view adding_admin)
      \<and> \<not> saving (view adding_admin)"
    by (simp add: adding_admin_eval loaded_admin_eval openAddModal_def admin_init_def)
  from submit_rejects_missing_fields [of adding_admin sheet_api] e f
  show ?thesis by (simp add: adding_admin_eval)
qed

subsection \<open>Deleting a record\<close>

lemma not_strict_eq: "d \<noteq> NaN \<Longrightarrow> (\<not> strict_eq v d) = (v \<noteq> d)"
  by (auto simp: strict_eq_def)

lemma recipes_handleDelete_deleted:
  "d \<noteq> NaN \<Longrightarrow>
   recipes (handleDelete_deleted d s) = filter (\<lambda>r. get r ''id'' \<noteq> d) (recipes s)"
  by (simp add: handleDelete_deleted_def closeDeleteModal_def not_strict_eq)

lemma settle_delete:
  "k < length (pending sys) \<Longrightarrow> pending sys ! k = AwaitDelete d \<Longrightarrow>
   api (DELETE (ReceitaId d)) (outside sys) = (Response b, w') \<Longrightarrow>
   view (admin_step api (Settled k) sys) = handleDelete_deleted d (view sys)"
  by (simp add: admin_step_def admin_settle_def deleteRecipe_def Let_def)

text \<open>
  Claim C8. When the delete of the record with identifier \<open>d\<close> succeeds, the
  collection of the admin view becomes the records it held whose identifier is not
  \<open>d\<close>, in the same order and each as it was; the categories and the form are not
  touched. The identifier is the one of the record that the delete modal was opened
  on.
\<close>

theorem delete_removes_only_that_record:
  "d \<noteq> NaN \<longrightarrow>
     recipes (handleDelete_deleted d s) = filter (\<lambda>r. get r ''id'' \<noteq> d) (recipes s)
     \<and> categories (handleDelete_deleted d s) = categories s
     \<and> formData (handleDelete_deleted d s) = formData s
     \<and> (k < length (pending sys) \<and> pending sys ! k = AwaitDelete d
         \<and> api (DELETE (ReceitaId d)) (outside sys) = (Response b, w')
        \<longrightarrow> recipes (view (admin_step api (Settled k) sys)) =
              filter (\<lambda>r. get r ''id'' \<noteq> d) (recipes (view sys)))
     \<and> (deletingRecipe s = Some x \<and> get x ''id'' = d
        \<longrightarrow> snd (snd (handleDelete s)) = Some (AwaitDelete d))"
  by (simp add: recipes_handleDelete_deleted settle_delete)
     (simp add: handleDelete_deleted_def closeDeleteModal_def handleDelete_def)

lemma deleting_admin_eval:
  "recipes (view deleting_admin) = [normalizeRecipe sample_row, normalizeRecipe created_row]"
  "pending deleting_admin = [AwaitDelete (Num 2)]"
  "outside deleting_admin = [sample_row, created_row]"
  by (simp_all add: deleting_admin_def admin_step_def admin_user_def loaded_admin_eval
      admin_init_def openDeleteModal_def handleDelete_def started_def Let_def
      normalizeRecipe_def sample_row_def)

lemma sample_ids:
  "get (normalizeRecipe sample_row) ''id'' = Num 2"
  "get (normalizeRecipe created_row) ''id'' = Num 3"
  by (simp_all add: normalizeRecipe_def sample_row_def created_row_def)

theorem delete_removes_only_that_record_witness:
  "Num 2 \<noteq> NaN
   \<and> pending deleting_admin ! 0 = AwaitDelete (Num 2)
   \<and> recipes (view deleting_admin) = [normalizeRecipe sample_row, normalizeRecipe created_row]
   \<and> recipes (view (admin_step sheet_api (Settled 0) deleting_admin)) =
       [normalizeRecipe created_row]"
proof -
  have d: "sheet_api (DELETE (ReceitaId (Num 2))) (outside deleting_admin) =
      (Response no_data, [created_row])"
    by (simp add: deleting_admin_eval sample_row_def created_row_def)
  have k: "0 < length (pending deleting_admin)"
    "pending deleting_admin ! 0 = AwaitDelete (Num 2)"
    by (simp_all add: deleting_admin_eval)
  from delete_removes_only_that_record [of "Num 2" "view deleting_admin" 0 deleting_admin
      sheet_api no_data "[created_row]"] d k
  have "recipes (view (admin_step sheet_api (Settled 0) deleting_admin)) =
      filter (\<lambda>r. get r ''id'' \<noteq> Num 2) (recipes (view deleting_admin))"
    by simp
  then show ?thesis
    by (simp add: deleting_admin_eval sample_ids)
qed

section \<open>The detail view: likes\<close>

lemma increments_append [simp]: "increments (xs @ ys) = increments xs + increments ys"
  by (simp add: increments_def)

lemma puts_append [simp]: "puts (xs @ ys) = puts xs + puts ys"
  by (simp add: puts_def)

lemma increments_Nil [simp]: "increments [] = 0"
  by (simp add: increments_def)

lemma puts_Nil [simp]: "puts [] = 0"
  by (simp add: puts_def)

lemma increments_Cons [simp]:
  "increments (x # xs) = (if accepted_put x then 1 else 0) + increments xs"
  by (simp add: increments_def)

lemma puts_Cons [simp]: "puts (x # xs) = (if put_sent x then 1 else 0) + puts xs"
  by (simp add: puts_def)

lemma put_sent_simps [simp]:
  "put_sent (GET p, rs) = False" "put_sent (PUT p body, rs) = True"
  by (simp_all add: put_sent_def)

lemma accepted_put_simps [simp]:
  "accepted_put (GET p, rs) = False" "accepted_put (PUT p body, rs) = (rs \<noteq> Failure)"
  by (simp_all add: accepted_put_def)

lemma getRecipeById_logged:
  "getRecipeById (logged api) ident lw = (outcome, lw') \<Longrightarrow>
   increments (fst lw') = increments (fst lw) \<and> puts (fst lw') = puts (fst lw)"
  by (auto simp: getRecipeById_def logged_def
      split: prod.splits response.splits option.splits)

lemma like_get_logged:
  "logged api (GET p) lw = (rs, lw') \<Longrightarrow>
   increments (fst lw') = increments (fst lw) \<and> puts (fst lw') = puts (fst lw)"
  by (auto simp: logged_def split: prod.splits)

lemma likeRecipe_fetched_logged:
  "likeRecipe_fetched (logged api) ident rs lw = (r, lw') \<Longrightarrow>
   (case r of
      Inl outcome \<Rightarrow>
        increments (fst lw') = increments (fst lw)
        \<and> (outcome = Inl TransportError \<or> outcome = Inr Null)
    | Inr (newLikes, rs2) \<Rightarrow>
        newLikes \<noteq> Null
        \<and> increments (fst lw') = increments (fst lw) + (if rs2 = Failure then 0 else 1))"
  by (auto simp: likeRecipe_fetched_def logged_def Let_def plus_one_not_Null
      split: prod.splits response.splits option.splits simp del: plus_one.simps)

lemma remove_nth_single [simp]: "remove_nth 0 [x] = []"
  by (simp add: remove_nth_def)

lemma handleLike_cases:
  "handleLike v = (v, False) \<and> (isLiking v \<or> liked v)
   \<or> handleLike v = (v\<lparr>isLiking := True\<rparr>, True) \<and> \<not> isLiking v \<and> \<not> liked v"
  by (simp add: handleLike_def)

lemma pending_ok_cases:
  assumes "pending_ok v k aws"
  obtains (idle) "aws = []" "k \<le> 1" "k = 1 \<longrightarrow> liked v"
    | (load) n outcome where "aws = [(0, AwaitRecipe n outcome)]" "detail.loading v" "k = 0"
    | (get) n rs where "aws = [(0, AwaitLikeGet n rs)]" "isLiking v" "\<not> liked v" "k = 0"
    | (put) n newLikes rs where "aws = [(0, AwaitLikePut n newLikes rs)]" "isLiking v"
        "\<not> liked v" "newLikes \<noteq> Null" "k = (if rs = Failure then 0 else 1)"
  using assms by (induction v k aws rule: pending_ok.induct) auto

lemma single_flight_click:
  assumes "single_flight c"
  shows "single_flight (client_step (logged api) (ClickLike i) c)"
proof (cases "i < length (tabs c) \<and> \<not> detail.loading (tabs c ! i) \<and> recipe (tabs c ! i) \<noteq> None")
  case False
  then show ?thesis using assms by (auto simp: client_step_def)
next
  case True
  with assms have i: "i = 0" by (simp add: single_flight_def)
  from assms have ok: "pending_ok (tabs c ! 0) (increments (fst (world c))) (awaiting c)"
    and one: "length (tabs c) = 1"
    by (simp_all add: single_flight_def)
  from handleLike_cases [of "tabs c ! 0"] consider
      (noop) "handleLike (tabs c ! 0) = (tabs c ! 0, False)"
    | (call) "handleLike (tabs c ! 0) = ((tabs c ! 0)\<lparr>isLiking := True\<rparr>, True)"
        "\<not> isLiking (tabs c ! 0)" "\<not> liked (tabs c ! 0)"
    by blast
  then show ?thesis
  proof cases
    case noop
    with True i assms show ?thesis
      by (auto simp: client_step_def single_flight_def)
  next
    case call
    obtain rs lw' where g: "logged api (GET (ReceitaId (Num (rid (tabs c ! 0))))) (world c) = (rs, lw')"
      by (cases "logged api (GET (ReceitaId (Num (rid (tabs c ! 0))))) (world c)")
    from like_get_logged [OF g] have inc: "increments (fst lw') = increments (fst (world c))"
      by simp
    from ok show ?thesis
    proof (cases rule: pending_ok_cases)
      case idle
      with call True i one g inc show ?thesis
        by (auto simp: client_step_def single_flight_def)
    next
      case (load n outcome)
      with True i show ?thesis by simp
    next
      case (get n rs)
      with call show ?thesis by simp
    next
      case (put n newLikes rs)
      with call show ?thesis by simp
    qed
  qed
qed

lemma single_flight_settle:
  assumes "single_flight c"
  shows "single_flight (client_settle (logged api) k c)"
proof -
  from assms have ok: "pending_ok (tabs c ! 0) (increments (fst (world c))) (awaiting c)"
    and one: "length (tabs c) = 1"
    by (simp_all add: single_flight_def)
  from ok show ?thesis
  proof (cases rule: pending_ok_cases)
    case idle
    then show ?thesis using assms by (simp add: client_settle_def)
  next
    case (load n outcome)
    then show ?thesis
      using one
      by (cases k)
        (auto simp: client_settle_def single_flight_def loadRecipe_done_def Let_def
          split: sum.splits option.splits)
  next
    case (get n rs)
    obtain r lw' where f: "likeRecipe_fetched (logged api) (Num n) rs (world c) = (r, lw')"
      by (cases "likeRecipe_fetched (logged api) (Num n) rs (world c)")
    show ?thesis
    proof (cases k)
      case (Suc j)
      with get assms show ?thesis by (simp add: client_settle_def)
    next
      case 0
      show ?thesis
      proof (cases r)
        case (Inl outcome)
        with likeRecipe_fetched_logged [OF f] get
        have "increments (fst lw') = 0" "outcome = Inl TransportError \<or> outcome = Inr Null"
          by simp_all
        with 0 get one f Inl show ?thesis
          by (auto simp: client_settle_def single_flight_def like_finished_def
              handleLike_done_def strict_eq_def Let_def)
      next
        case (Inr p)
        obtain newLikes rs2 where p: "p = (newLikes, rs2)" by (cases p)
        with likeRecipe_fetched_logged [OF f] get Inr
        have "newLikes \<noteq> Null" "increments (fst lw') = (if rs2 = Failure then 0 else 1)"
          by simp_all
        with 0 get one f Inr p show ?thesis
          by (auto simp: client_settle_def single_flight_def Let_def)
      qed
    qed
  next
    case (put n newLikes rs)
    then show ?thesis
      using one
      by (cases k; cases rs)
        (auto simp: client_settle_def single_flight_def like_finished_def
          likeRecipe_updated_def handleLike_done_def strict_eq_def Let_def)
  qed
qed

lemma single_flight_step:
  "single_flight c \<Longrightarrow> stays ev \<Longrightarrow> single_flight (client_step (logged api) ev c)"
  using single_flight_click [of c api] single_flight_settle [of c api]
  by (cases ev) (auto simp: stays_def client_step_def)

lemma single_flight_run:
  "single_flight c \<Longrightarrow> list_all stays evs \<Longrightarrow> single_flight (client_run (logged api) evs c)"
  by (induction evs arbitrary: c) (simp_all add: single_flight_step)

lemma single_flight_open:
  "single_flight (client_step (logged api) (Open n) (client_init st ([], w)))"
proof -
  obtain outcome lw' where g: "getRecipeById (logged api) (Num n) ([], w) = (outcome, lw')"
    by (cases "getRecipeById (logged api) (Num n) ([], w)")
  from getRecipeById_logged [OF g] have "increments (fst lw') = 0" by simp
  with g show ?thesis
    by (simp add: client_step_def client_init_def single_flight_def detail_init_def
        loadRecipe_start_def)
qed

lemma load_only_cases:
  assumes "load_only n aws"
  obtains (idle) "aws = []" | (load) outcome where "aws = [(0, AwaitRecipe n outcome)]"
  using assms by (induction n aws rule: load_only.induct) auto

lemma already_liked_click:
  assumes "already_liked c"
  shows "already_liked (client_step (logged api) (ClickLike i) c)"
proof (cases "i < length (tabs c) \<and> \<not> detail.loading (tabs c ! i) \<and> recipe (tabs c ! i) \<noteq> None")
  case False
  then show ?thesis using assms by (auto simp: client_step_def)
next
  case True
  with assms have i: "i = 0" by (simp add: already_liked_def)
  with True assms have "liked (tabs c ! 0)" by (simp add: already_liked_def)
  then have "handleLike (tabs c ! 0) = (tabs c ! 0, False)" by (simp add: handleLike_def)
  with True i have "client_step (logged api) (ClickLike i) c = c"
    by (simp add: client_step_def)
  with assms show ?thesis by simp
qed

lemma already_liked_settle:
  assumes "already_liked c"
  shows "already_liked (client_settle (logged api) k c)"
proof -
  from assms have "load_only (rid (tabs c ! 0)) (awaiting c)"
    and one: "length (tabs c) = 1"
    by (simp_all add: already_liked_def)
  then show ?thesis
  proof (cases rule: load_only_cases)
    case idle
    then show ?thesis using assms by (simp add: client_settle_def)
  next
    case (load outcome)
    then show ?thesis
      using one assms
      by (cases k)
        (auto simp: client_settle_def already_liked_def loadRecipe_done_def Let_def
          split: sum.splits option.splits)
  qed
qed

lemma already_liked_step:
  "already_liked c \<Longrightarrow> stays ev \<Longrightarrow> already_liked (client_step (logged api) ev c)"
  using already_liked_click [of c api] already_liked_settle [of c api]
  by (cases ev) (auto simp: stays_def client_step_def)

lemma already_liked_run:
  "already_liked c \<Longrightarrow> list_all stays evs \<Longrightarrow> already_liked (client_run (logged api) evs c)"
  by (induction evs arbitrary: c) (simp_all add: already_liked_step)

lemma already_liked_open:
  assumes "n \<in> set (likedRecipes st)"
  shows "already_liked (client_step (logged api) (Open n) (client_init st ([], w)))"
proof -
  obtain outcome lw' where g: "getRecipeById (logged api) (Num n) ([], w) = (outcome, lw')"
    by (cases "getRecipeById (logged api) (Num n) ([], w)")
  from getRecipeById_logged [OF g] have "puts (fst lw') = 0" by simp
  with g assms show ?thesis
    by (simp add: client_step_def client_init_def already_liked_def detail_init_def
        loadRecipe_start_def)
qed

text \<open>Once the view is liked and nothing is pending, nothing that happens changes the client.\<close>

lemma liked_and_idle:
  assumes "length (tabs c) = 1" "liked (tabs c ! 0)" "awaiting c = []" "stays ev"
  shows "client_step api ev c = c"
  using assms
  by (cases ev) (auto simp: stays_def client_step_def client_settle_def handleLike_def)

lemma one_view_facts:
  assumes "list_all stays evs"
  shows "increments (fst (world (one_view api st n w evs))) \<le> 1"
    and "length (tabs (one_view api st n w evs)) = 1"
    and "n \<in> set (likedRecipes st) \<Longrightarrow> puts (fst (world (one_view api st n w evs))) = 0"
proof -
  have sf: "single_flight (one_view api st n w evs)"
    unfolding one_view_def using assms
    by (simp add: single_flight_run single_flight_open)
  then show "length (tabs (one_view api st n w evs)) = 1"
    by (simp add: single_flight_def)
  from sf have "pending_ok (tabs (one_view api st n w evs) ! 0)
      (increments (fst (world (one_view api st n w evs)))) (awaiting (one_view api st n w evs))"
    by (simp add: single_flight_def)
  then show "increments (fst (world (one_view api st n w evs))) \<le> 1"
    by (cases rule: pending_ok_cases) auto
next
  assume "n \<in> set (likedRecipes st)"
  then have "already_liked (one_view api st n w evs)"
    unfolding one_view_def using assms
    by (simp add: already_liked_run already_liked_open)
  then show "puts (fst (world (one_view api st n w evs))) = 0"
    by (simp add: already_liked_def)
qed

subsection \<open>Two views on the sample store\<close>

lemma get_sample_id: "get sample_row ''id'' = Num 2"
  by (simp add: sample_row_def)

lemma find_row_liked:
  "find_row (Num 2) [overwrite sample_row [''likes'' \<mapsto> Num n]] =
     Some (overwrite sample_row [''likes'' \<mapsto> Num n])"
  by (simp add: find_row_def get_overwrite_id get_sample_id)

lemma get_likes_liked: "get (overwrite r [''likes'' \<mapsto> Num n]) ''likes'' = Num n"
  by (simp add: overwrite_def get_def)

lemma overwrite_twice:
  "overwrite (overwrite r [''likes'' \<mapsto> Num n]) [''likes'' \<mapsto> Num m] =
     overwrite r [''likes'' \<mapsto> Num m]"
  by (rule ext) (simp add: overwrite_def)

lemma normalized_likes:
  "get r ''likes'' = Num n \<Longrightarrow> get (normalizeRecipe r) ''likes'' = Num n"
  by (simp add: normalizeRecipe_def js_or_def)

lemma client_run_append:
  "client_run api (xs @ ys) c = client_run api ys (client_run api xs c)"
  by (induction xs arbitrary: c) simp_all

lemmas load_eval =
  client_step_def loadRecipe_start_def client_settle_def client_init_def detail_init_def
  remove_nth_def getRecipeById_def loadRecipe_done_def likedRecipes_def find_row_sample
  find_row_liked no_data_def normalized_likes get_sample_likes get_likes_liked

lemmas like_eval =
  client_step_def client_settle_def like_finished_def remove_nth_def likeRecipe_fetched_def
  likeRecipe_updated_def handleLike_def handleLike_done_def likedRecipes_def find_row_sample
  find_row_liked no_data_def get_sample_likes get_likes_liked overwrite_twice js_or_def
  strict_eq_def Let_def get_sample_id get_overwrite_id double_round_exact

lemma two_tabs_loaded:
  "client_run sheet_api [Open 2, Settle 0, Open 2, Settle 0] (client_init None [sample_row]) =
     \<lparr>liked_recipes = None,
      tabs = [\<lparr>rid = 2, recipe = Some (normalizeRecipe sample_row), loading = False,
               likes = Num 5, isLiking = False, liked = False\<rparr>,
              \<lparr>rid = 2, recipe = Some (normalizeRecipe sample_row), loading = False,
               likes = Num 5, isLiking = False, liked = False\<rparr>],
      awaiting = [], console = [], world = [sample_row]\<rparr>"
  by (simp add: load_eval)

lemma two_tabs_state:
  "two_tabs =
     \<lparr>liked_recipes = Some [2],
      tabs = [\<lparr>rid = 2, recipe = Some (normalizeRecipe sample_row), loading = False,
               likes = Num 6, isLiking = False, liked = True\<rparr>,
              \<lparr>rid = 2, recipe = Some (normalizeRecipe sample_row), loading = False,
               likes = Num 5, isLiking = False, liked = False\<rparr>],
      awaiting = [], console = [],
      world = [overwrite sample_row [''likes'' \<mapsto> Num 6]]\<rparr>"
proof -
  have "two_tabs =
      client_run sheet_api [ClickLike 0, Settle 0, Settle 0]
        (client_run sheet_api [Open 2, Settle 0, Open 2, Settle 0]
          (client_init None [sample_row]))"
    unfolding two_tabs_def client_run_append [symmetric] by simp
  then show ?thesis
    unfolding two_tabs_loaded by (simp add: like_eval)
qed

lemma second_like:
  "client_run sheet_api [ClickLike 1, Settle 0, Settle 0] two_tabs =
     \<lparr>liked_recipes = Some [2, 2],
      tabs = [\<lparr>rid = 2, recipe = Some (normalizeRecipe sample_row), loading = False,
               likes = Num 6, isLiking = False, liked = True\<rparr>,
              \<lparr>rid = 2, recipe = Some (normalizeRecipe sample_row), loading = False,
               likes = Num 7, isLiking = False, liked = True\<rparr>],
      awaiting = [], console = [],
      world = [overwrite sample_row [''likes'' \<mapsto> Num 7]]\<rparr>"
  unfolding two_tabs_state by (simp add: like_eval)

text \<open>
  Claim C6 as stated fails when one client has two views open on the same record.
  After the like of the first view has succeeded the identifier is in the persisted
  set, and yet a click in the second view starts another increment, which the store
  accepts: the like count goes from 5 to 7.
\<close>

theorem like_once_per_client_counterexample:
  "2 \<in> set (likedRecipes (liked_recipes two_tabs))
   \<and> awaiting two_tabs = []
   \<and> awaiting (client_step sheet_api (ClickLike 1) two_tabs) =
       [(1, AwaitLikeGet 2
              (Response (no_data\<lparr>receita :=
                 Some (overwrite sample_row [''likes'' \<mapsto> Num 6])\<rparr>)))]
   \<and> stored_likes (Num 2) [sample_row] = Some (Num 5)
   \<and> stored_likes (Num 2) (world two_tabs) = Some (Num 6)
   \<and> stored_likes (Num 2)
         (world (client_run sheet_api [ClickLike 1, Settle 0, Settle 0] two_tabs))
       = Some (Num 7)"
proof -
  have "awaiting (client_step sheet_api (ClickLike 1) two_tabs) =
       [(1, AwaitLikeGet 2
              (Response (no_data\<lparr>receita :=
                 Some (overwrite sample_row [''likes'' \<mapsto> Num 6])\<rparr>)))]"
    unfolding two_tabs_state by (simp add: client_step_def handleLike_def find_row_liked)
  moreover have "2 \<in> set (likedRecipes (liked_recipes two_tabs))" "awaiting two_tabs = []"
    "stored_likes (Num 2) (world two_tabs) = Some (Num 6)"
    unfolding two_tabs_state
    by (simp_all add: likedRecipes_def stored_likes_def find_row_liked get_likes_liked)
  moreover have "stored_likes (Num 2) [sample_row] = Some (Num 5)"
    by (simp add: stored_likes_def find_row_sample get_sample_likes)
  moreover have
    "stored_likes (Num 2)
         (world (client_run sheet_api [ClickLike 1, Settle 0, Settle 0] two_tabs))
       = Some (Num 7)"
    unfolding second_like by (simp add: stored_likes_def find_row_liked get_likes_liked)
  ultimately show ?thesis by simp
qed

text \<open>
  Two likes that overlap: both views read the count 5 before either writes, both
  write 6, and one increment is lost.
\<close>

lemma both_clicked:
  "client_run sheet_api [Open 2, Settle 0, Open 2, Settle 0, ClickLike 0, ClickLike 1]
     (client_init None [sample_row]) =
     \<lparr>liked_recipes = None,
      tabs = [\<lparr>rid = 2, recipe = Some (normalizeRecipe sample_row), loading = False,
               likes = Num 5, isLiking = True, liked = False\<rparr>,
              \<lparr>rid = 2, recipe = Some (normalizeRecipe sample_row), loading = False,
               likes = Num 5, isLiking = True, liked = False\<rparr>],
      awaiting = [(0, AwaitLikeGet 2 (Response (no_data\<lparr>receita := Some sample_row\<rparr>))),
                  (1, AwaitLikeGet 2 (Response (no_data\<lparr>receita := Some sample_row\<rparr>)))],
      console = [], world = [sample_row]\<rparr>"
proof -
  have "client_run sheet_api [Open 2, Settle 0, Open 2, Settle 0, ClickLike 0, ClickLike 1]
     (client_init None [sample_row]) =
      client_run sheet_api [ClickLike 0, ClickLike 1]
        (client_run sheet_api [Open 2, Settle 0, Open 2, Settle 0]
          (client_init None [sample_row]))"
    unfolding client_run_append [symmetric] by simp
  then show ?thesis
    unfolding two_tabs_loaded
    by (simp add: client_step_def handleLike_def find_row_sample)
qed

lemma overlapping_likes:
  "stored_likes (Num 2)
     (world (client_run sheet_api
        [Open 2, Settle 0, Open 2, Settle 0, ClickLike 0, ClickLike 1,
         Settle 0, Settle 0, Settle 0, Settle 0]
        (client_init None [sample_row]))) = Some (Num 6)"
proof -
  let ?v = "\<lparr>rid = 2, recipe = Some (normalizeRecipe sample_row), loading = False,
             likes = Num 5, isLiking = True, liked = False\<rparr>"
  let ?l = "\<lparr>rid = 2, recipe = Some (normalizeRecipe sample_row), loading = False,
             likes = Num 6, isLiking = False, liked = True\<rparr>"
  let ?g = "AwaitLikeGet 2 (Response (no_data\<lparr>receita := Some sample_row\<rparr>))"
  let ?p = "AwaitLikePut 2 (Num 6)
              (Response (no_data\<lparr>receita :=
                 Some (overwrite sample_row [''likes'' \<mapsto> Num 6])\<rparr>))"
  let ?w = "[overwrite sample_row [''likes'' \<mapsto> Num 6]]"
  have s1: "client_step sheet_api (Settle 0)
      \<lparr>liked_recipes = None, tabs = [?v, ?v], awaiting = [(0, ?g), (1, ?g)],
       console = [], world = [sample_row]\<rparr> =
      \<lparr>liked_recipes = None, tabs = [?v, ?v], awaiting = [(1, ?g), (0, ?p)],
       console = [], world = ?w\<rparr>"
    apply (simp add: client_step_def client_settle_def remove_nth_def)
    apply (simp add: likeRecipe_fetched_def Let_def get_sample_likes js_or_def double_round_exact)
    apply (simp add: find_row_sample get_sample_id)
    done
  have s2: "client_step sheet_api (Settle 0)
      \<lparr>liked_recipes = None, tabs = [?v, ?v], awaiting = [(1, ?g), (0, ?p)],
       console = [], world = ?w\<rparr> =
      \<lparr>liked_recipes = None, tabs = [?v, ?v], awaiting = [(0, ?p), (1, ?p)],
       console = [], world = ?w\<rparr>"
    apply (simp add: client_step_def client_settle_def remove_nth_def)
    apply (simp add: likeRecipe_fetched_def Let_def get_sample_likes js_or_def double_round_exact)
    apply (simp add: find_row_liked get_overwrite_id get_sample_id overwrite_twice)
    done
  have s3: "client_step sheet_api (Settle 0)
      \<lparr>liked_recipes = None, tabs = [?v, ?v], awaiting = [(0, ?p), (1, ?p)],
       console = [], world = ?w\<rparr> =
      \<lparr>liked_recipes = Some [2], tabs = [?l, ?v], awaiting = [(1, ?p)],
       console = [], world = ?w\<rparr>"
    apply (simp add: client_step_def client_settle_def remove_nth_def)
    apply (simp add: like_finished_def likeRecipe_updated_def handleLike_done_def strict_eq_def
        likedRecipes_def)
    done
  have s4: "client_step sheet_api (Settle 0)
      \<lparr>liked_recipes = Some [2], tabs = [?l, ?v], awaiting = [(1, ?p)],
       console = [], world = ?w\<rparr> =
      \<lparr>liked_recipes = Some [2, 2], tabs = [?l, ?l], awaiting = [],
       console = [], world = ?w\<rparr>"
    apply (simp add: client_step_def client_settle_def remove_nth_def)
    apply (simp add: like_finished_def likeRecipe_updated_def handleLike_done_def strict_eq_def
        likedRecipes_def)
    done
  have "client_run sheet_api
        [Open 2, Settle 0, Open 2, Settle 0, ClickLike 0, ClickLike 1,
         Settle 0, Settle 0, Settle 0, Settle 0]
        (client_init None [sample_row]) =
      client_run sheet_api [Settle 0, Settle 0, Settle 0, Settle 0]
        (client_run sheet_api [Open 2, Settle 0, Open 2, Settle 0, ClickLike 0, ClickLike 1]
          (client_init None [sample_row]))"
    unfolding client_run_append [symmetric] by simp
  also have "\<dots> = \<lparr>liked_recipes = Some [2, 2], tabs = [?l, ?l], awaiting = [],
       console = [], world = ?w\<rparr>"
    unfolding both_clicked by (simp only: client_run.simps s1 s2 s3 s4)
  finally show ?thesis
    by (simp add: stored_likes_def find_row_liked get_likes_liked)
qed

subsection \<open>One like per view\<close>

lemma click_noop:
  "i < length (tabs c) \<Longrightarrow> isLiking (tabs c ! i) \<or> liked (tabs c ! i) \<Longrightarrow>
   client_step api (ClickLike i) c = c"
  by (auto simp: client_step_def handleLike_def)

text \<open>One view on the sample store, its like clicked once and settled.\<close>

lemma one_like_state:
  "one_view sheet_api None 2 [sample_row] [Settle 0, ClickLike 0, Settle 0, Settle 0] =
     \<lparr>liked_recipes = Some [2],
      tabs = [\<lparr>rid = 2, recipe = Some (normalizeRecipe sample_row), loading = False,
               likes = Num 6, isLiking = False, liked = True\<rparr>],
      awaiting = [], console = [],
      world =
        ([(GET (ReceitaId (Num 2)), Response (no_data\<lparr>receita := Some sample_row\<rparr>)),
          (GET (ReceitaId (Num 2)), Response (no_data\<lparr>receita := Some sample_row\<rparr>)),
          (PUT (ReceitaId (Num 2)) [''likes'' \<mapsto> Num 6],
           Response (no_data\<lparr>receita :=
              Some (overwrite sample_row [''likes'' \<mapsto> Num 6])\<rparr>))],
         [overwrite sample_row [''likes'' \<mapsto> Num 6]])\<rparr>"
proof -
  let ?g = "Response (no_data\<lparr>receita := Some sample_row\<rparr>)"
  let ?p = "Response (no_data\<lparr>receita :=
              Some (overwrite sample_row [''likes'' \<mapsto> Num 6])\<rparr>)"
  let ?x1 = "(GET (ReceitaId (Num 2)), ?g)"
  let ?x2 = "(PUT (ReceitaId (Num 2)) [''likes'' \<mapsto> Num 6], ?p)"
  let ?w = "[overwrite sample_row [''likes'' \<mapsto> Num 6]]"
  let ?v = "\<lambda>b. \<lparr>rid = 2, recipe = Some (normalizeRecipe sample_row), loading = False,
             likes = Num 5, isLiking = b, liked = False\<rparr>"
  let ?l = "\<lparr>rid = 2, recipe = Some (normalizeRecipe sample_row), loading = False,
             likes = Num 6, isLiking = False, liked = True\<rparr>"
  have s0: "client_step (logged sheet_api) (Open 2) (client_init None ([], [sample_row])) =
      \<lparr>liked_recipes = None, tabs = [detail_init 2],
       awaiting = [(0, AwaitRecipe 2 (Inr (Some (normalizeRecipe sample_row))))],
       console = [], world = ([?x1], [sample_row])\<rparr>"
    apply (simp add: client_step_def loadRecipe_start_def client_init_def)
    apply (simp add: getRecipeById_def logged_def find_row_sample)
    apply (simp add: detail_init_def no_data_def)
    done
  have s1: "client_step (logged sheet_api) (Settle 0)
      \<lparr>liked_recipes = None, tabs = [detail_init 2],
       awaiting = [(0, AwaitRecipe 2 (Inr (Some (normalizeRecipe sample_row))))],
       console = [], world = ([?x1], [sample_row])\<rparr> =
      \<lparr>liked_recipes = None, tabs = [?v False], awaiting = [],
       console = [], world = ([?x1], [sample_row])\<rparr>"
    apply (simp add: client_step_def client_settle_def remove_nth_def)
    apply (simp add: loadRecipe_done_def detail_init_def likedRecipes_def normalized_likes
        get_sample_likes)
    done
  have s2: "client_step (logged sheet_api) (ClickLike 0)
      \<lparr>liked_recipes = None, tabs = [?v False], awaiting = [],
       console = [], world = ([?x1], [sample_row])\<rparr> =
      \<lparr>liked_recipes = None, tabs = [?v True], awaiting = [(0, AwaitLikeGet 2 ?g)],
       console = [], world = ([?x1, ?x1], [sample_row])\<rparr>"
    apply (simp add: client_step_def handleLike_def)
    apply (simp add: logged_def find_row_sample)
    done
  have s3: "client_step (logged sheet_api) (Settle 0)
      \<lparr>liked_recipes = None, tabs = [?v True], awaiting = [(0, AwaitLikeGet 2 ?g)],
       console = [], world = ([?x1, ?x1], [sample_row])\<rparr> =
      \<lparr>liked_recipes = None, tabs = [?v True], awaiting = [(0, AwaitLikePut 2 (Num 6) ?p)],
       console = [], world = ([?x1, ?x1, ?x2], ?w)\<rparr>"
    apply (simp add: client_step_def client_settle_def remove_nth_def)
    apply (simp add: likeRecipe_fetched_def Let_def get_sample_likes js_or_def double_round_exact)
    apply (simp add: logged_def find_row_sample get_sample_id)
    done
  have s4: "client_step (logged sheet_api) (Settle 0)
      \<lparr>liked_recipes = None, tabs = [?v True], awaiting = [(0, AwaitLikePut 2 (Num 6) ?p)],
       console = [], world = ([?x1, ?x1, ?x2], ?w)\<rparr> =
      \<lparr>liked_recipes = Some [2], tabs = [?l], awaiting = [],
       console = [], world = ([?x1, ?x1, ?x2], ?w)\<rparr>"
    apply (simp add: client_step_def client_settle_def remove_nth_def)
    apply (simp add: like_finished_def likeRecipe_updated_def handleLike_done_def strict_eq_def
        likedRecipes_def)
    done
  show ?thesis
    unfolding one_view_def by (simp only: client_run.simps s0 s1 s2 s3 s4)
qed

text \<open>
  Claim C6, amended. The like action is a no-op, with no request and with the view,
  its displayed count included, unchanged, whenever the \<open>liked\<close> flag of the view
  holds or a like of this view is in flight. Loading the view sets the flag exactly
  when the route parameter is in the persisted set at that moment; a successful like
  adopts the returned count, sets the flag and appends the route parameter to the
  persisted set. Hence, on a client where one view instance is opened and stays on
  its route parameter, and no other view is: at most one put of the view is
  acknowledged; once the view is liked and nothing is pending, no later click or
  answer changes anything or sends anything; and when the route parameter was in
  the persisted set before the view was opened, the view sends no put at all.
\<close>

theorem like_single_flight:
  "(isLiking v \<or> liked v \<longrightarrow> handleLike v = (v, False))
   \<and> (i < length (tabs c) \<and> (isLiking (tabs c ! i) \<or> liked (tabs c ! i))
       \<longrightarrow> client_step api (ClickLike i) c = c)
   \<and> liked (fst (loadRecipe_done (Inr (Some d)) ident st v)) = (ident \<in> set (likedRecipes st))
   \<and> (newLikes \<noteq> Null \<longrightarrow>
        handleLike_done (Inr newLikes) ident st v =
          (v\<lparr>likes := newLikes, liked := True, isLiking := False\<rparr>,
           Some (likedRecipes st @ [ident]), []))
   \<and> (list_all stays evs \<longrightarrow>
        increments (fst (world (one_view api' st n w evs))) \<le> 1
        \<and> (liked (tabs (one_view api' st n w evs) ! 0)
             \<and> awaiting (one_view api' st n w evs) = [] \<and> stays ev
            \<longrightarrow> client_step (logged api') ev (one_view api' st n w evs) =
                  one_view api' st n w evs)
        \<and> (n \<in> set (likedRecipes st) \<longrightarrow>
             puts (fst (world (one_view api' st n w evs))) = 0))"
proof -
  have noop: "isLiking v \<or> liked v \<longrightarrow> handleLike v = (v, False)"
    by (simp add: handleLike_def)
  have click: "i < length (tabs c) \<and> (isLiking (tabs c ! i) \<or> liked (tabs c ! i))
       \<longrightarrow> client_step api (ClickLike i) c = c"
    using click_noop [of i c api] by blast
  have load: "liked (fst (loadRecipe_done (Inr (Some d)) ident st v)) =
      (ident \<in> set (likedRecipes st))"
    by (simp add: loadRecipe_done_def)
  have succ: "newLikes \<noteq> Null \<longrightarrow>
        handleLike_done (Inr newLikes) ident st v =
          (v\<lparr>likes := newLikes, liked := True, isLiking := False\<rparr>,
           Some (likedRecipes st @ [ident]), [])"
    by (simp add: handleLike_done_def strict_eq_def)
  have run: "list_all stays evs \<longrightarrow>
        increments (fst (world (one_view api' st n w evs))) \<le> 1
        \<and> (liked (tabs (one_view api' st n w evs) ! 0)
             \<and> awaiting (one_view api' st n w evs) = [] \<and> stays ev
            \<longrightarrow> client_step (logged api') ev (one_view api' st n w evs) =
                  one_view api' st n w evs)
        \<and> (n \<in> set (likedRecipes st) \<longrightarrow>
             puts (fst (world (one_view api' st n w evs))) = 0)"
    by (blast intro: one_view_facts liked_and_idle)
  from noop click load succ run show ?thesis by blast
qed

theorem like_single_flight_witness:
  "liked (tabs two_tabs ! 0)
   \<and> client_step sheet_api (ClickLike 0) two_tabs = two_tabs
   \<and> handleLike_done (Inr (Num 6)) 2 None (tabs two_tabs ! 0) =
       ((tabs two_tabs ! 0)\<lparr>likes := Num 6, liked := True, isLiking := False\<rparr>, Some [2], [])
   \<and> list_all stays [Settle 0, ClickLike 0, Settle 0, Settle 0]
   \<and> increments (fst (world (one_view sheet_api None 2 [sample_row]
         [Settle 0, ClickLike 0, Settle 0, Settle 0]))) \<le> 1
   \<and> liked (tabs (one_view sheet_api None 2 [sample_row]
         [Settle 0, ClickLike 0, Settle 0, Settle 0]) ! 0)
   \<and> awaiting (one_view sheet_api None 2 [sample_row]
         [Settle 0, ClickLike 0, Settle 0, Settle 0]) = []
   \<and> client_step (logged sheet_api) (ClickLike 0)
         (one_view sheet_api None 2 [sample_row] [Settle 0, ClickLike 0, Settle 0, Settle 0]) =
       one_view sheet_api None 2 [sample_row] [Settle 0, ClickLike 0, Settle 0, Settle 0]
   \<and> 2 \<in> set (likedRecipes (Some [2]))
   \<and> puts (fst (world (one_view sheet_api (Some [2]) 2 [sample_row]
         [Settle 0, ClickLike 0, Settle 0, Settle 0]))) = 0"
proof -
  have l: "0 < length (tabs two_tabs)" "liked (tabs two_tabs ! 0)"
    unfolding two_tabs_state by simp_all
  have e: "list_all stays [Settle 0, ClickLike 0, Settle 0, Settle 0]" "stays (ClickLike 0)"
    by (simp_all add: stays_def)
  have m: "2 \<in> set (likedRecipes (Some [2]))" "likedRecipes None = []" "Num 6 \<noteq> Null"
    by (simp_all add: likedRecipes_def)
  have o: "liked (tabs (one_view sheet_api None 2 [sample_row]
         [Settle 0, ClickLike 0, Settle 0, Settle 0]) ! 0)"
    "awaiting (one_view sheet_api None 2 [sample_row]
         [Settle 0, ClickLike 0, Settle 0, Settle 0]) = []"
    unfolding one_like_state by simp_all
  from like_single_flight [of "tabs two_tabs ! 0" 0 two_tabs sheet_api sample_row 2 None
      "Num 6" "[Settle 0, ClickLike 0, Settle 0, Settle 0]" sheet_api 2 "[sample_row]"
      "ClickLike 0"] l e m o
  have a: "client_step sheet_api (ClickLike 0) two_tabs = two_tabs"
    and b: "handleLike_done (Inr (Num 6)) 2 None (tabs two_tabs ! 0) =
       ((tabs two_tabs ! 0)\<lparr>likes := Num 6, liked := True, isLiking := False\<rparr>, Some [2], [])"
    and c: "increments (fst (world (one_view sheet_api None 2 [sample_row]
         [Settle 0, ClickLike 0, Settle 0, Settle 0]))) \<le> 1"
    and d: "client_step (logged sheet_api) (ClickLike 0)
         (one_view sheet_api None 2 [sample_row] [Settle 0, ClickLike 0, Settle 0, Settle 0]) =
       one_view sheet_api None 2 [sample_row] [Settle 0, ClickLike 0, Settle 0, Settle 0]"
    by simp_all
  from like_single_flight [of "tabs two_tabs ! 0" 0 two_tabs sheet_api sample_row 2
      "Some [2]" "Num 6" "[Settle 0, ClickLike 0, Settle 0, Settle 0]" sheet_api 2
      "[sample_row]" "ClickLike 0"] e m
  have f: "puts (fst (world (one_view sheet_api (Some [2]) 2 [sample_row]
         [Settle 0, ClickLike 0, Settle 0, Settle 0]))) = 0"
    by simp
  from l e m o a b c d f show ?thesis by simp
qed

end
